theory Spec2Isabelle
  imports Complex_Main
begin

section \<open>Text helpers of the Python source\<close>

text \<open>
  Python \<^verbatim>\<open>str\<close> values are modelled as \<^typ>\<open>string\<close> over ASCII text:
  \<^verbatim>\<open>str.lower\<close> folds the letters A to Z, \<^verbatim>\<open>str.strip\<close> removes the ASCII
  characters for which \<^verbatim>\<open>str.isspace\<close> holds (tab, line feed, vertical tab, form
  feed, carriage return, the separators 0x1C to 0x1F and the space). Cased letters and
  white space outside ASCII are not part of the model.
\<close>

definition is_space :: "char \<Rightarrow> bool" where
  "is_space c =
     (c \<in> set [CHR 0x09, CHR 0x0A, CHR 0x0B, CHR 0x0C, CHR 0x0D,
                CHR 0x1C, CHR 0x1D, CHR 0x1E, CHR 0x1F, CHR '' ''])"

definition lstrip :: "string \<Rightarrow> string" where
  "lstrip s = dropWhile is_space s"

definition strip :: "string \<Rightarrow> string" where
  "strip s = rev (lstrip (rev (lstrip s)))"

definition lower_char :: "char \<Rightarrow> char" where
  "lower_char c =
     (case map_of (zip ''ABCDEFGHIJKLMNOPQRSTUVWXYZ'' ''abcdefghijklmnopqrstuvwxyz'') c of
        Some l \<Rightarrow> l
      | None \<Rightarrow> c)"

definition lower :: "string \<Rightarrow> string" where
  "lower s = map lower_char s"

text \<open>\<^verbatim>\<open>s.replace(ch, "")\<close> for a one-character pattern.\<close>

definition remove_char :: "char \<Rightarrow> string \<Rightarrow> string" where
  "remove_char ch s = filter (\<lambda>c. c \<noteq> ch) s"

fun startswith :: "string \<Rightarrow> string \<Rightarrow> bool" where
  "startswith s [] = True"
| "startswith [] (p # ps) = False"
| "startswith (c # cs) (p # ps) = (c = p \<and> startswith cs ps)"

definition endswith :: "string \<Rightarrow> string \<Rightarrow> bool" where
  "endswith s p = startswith (rev s) (rev p)"

text \<open>\<^verbatim>\<open>sub in s\<close>: \<open>sub\<close> occurs in \<open>s\<close> as a contiguous run of characters.\<close>

fun contains :: "string \<Rightarrow> string \<Rightarrow> bool" where
  "contains [] sub = (sub = [])"
| "contains (c # cs) sub = (startswith (c # cs) sub \<or> contains cs sub)"

text \<open>\<^verbatim>\<open>sep.join(parts)\<close>.\<close>

fun join :: "string \<Rightarrow> string list \<Rightarrow> string" where
  "join sep [] = []"
| "join sep [p] = p"
| "join sep (p # q # ps) = p @ sep @ join sep (q # ps)"

section \<open>Column detection\<close>

text \<open>
  \<^verbatim>\<open>lower_map = {c.lower().strip(): c for c in cols}\<close>: the comprehension stores the
  headers from left to right, so a later header replaces an earlier one under the same key.
\<close>

definition lower_map :: "string list \<Rightarrow> (string \<rightharpoonup> string)" where
  "lower_map cols = fold (\<lambda>c m. m(strip (lower c) \<mapsto> c)) cols Map.empty"

text \<open>The first loop of \<^verbatim>\<open>_pick_column\<close>, over the candidates.\<close>

fun exact_match :: "(string \<rightharpoonup> string) \<Rightarrow> string list \<Rightarrow> string option" where
  "exact_match m [] = None"
| "exact_match m (cand # cands) =
     (let key = strip (lower cand)
      in case m key of Some c \<Rightarrow> Some c | None \<Rightarrow> exact_match m cands)"

text \<open>The second, nested loop: headers outside, candidates inside.\<close>

fun any_candidate_in :: "string \<Rightarrow> string list \<Rightarrow> bool" where
  "any_candidate_in low [] = False"
| "any_candidate_in low (cand # cands) =
     (if contains low (remove_char CHR '' '' (lower cand)) then True
      else any_candidate_in low cands)"

fun substring_match :: "string list \<Rightarrow> string list \<Rightarrow> string option" where
  "substring_match [] cands = None"
| "substring_match (c # cols) cands =
     (let low = remove_char CHR '' '' (lower c)
      in if any_candidate_in low cands then Some c else substring_match cols cands)"

definition pick_column :: "string list \<Rightarrow> string list \<Rightarrow> string option" where
  "pick_column cols candidates =
     (case exact_match (lower_map cols) candidates of
        Some c \<Rightarrow> Some c
      | None \<Rightarrow> substring_match cols candidates)"

section \<open>Calendar dates and \<^verbatim>\<open>datetime.strptime\<close>\<close>

record date =
  year :: nat
  month :: nat
  day :: nat

definition is_leap :: "nat \<Rightarrow> bool" where
  "is_leap y = (y mod 4 = 0 \<and> (y mod 100 \<noteq> 0 \<or> y mod 400 = 0))"

definition days_in_month :: "nat \<Rightarrow> nat \<Rightarrow> nat" where
  "days_in_month y m =
     (if m = 2 then (if is_leap y then 29 else 28)
      else if m = 4 \<or> m = 6 \<or> m = 9 \<or> m = 11 then 30 else 31)"

text \<open>The check of the \<^verbatim>\<open>date\<close> constructor (years 1 to 9999).\<close>

definition valid_date :: "nat \<Rightarrow> nat \<Rightarrow> nat \<Rightarrow> bool" where
  "valid_date y m d =
     (1 \<le> y \<and> y \<le> 9999 \<and> 1 \<le> m \<and> m \<le> 12 \<and> 1 \<le> d \<and> d \<le> days_in_month y m)"

text \<open>The value of a decimal digit, \<open>None\<close> for any other character.\<close>

definition digit_val :: "char \<Rightarrow> nat option" where
  "digit_val c = map_of (zip ''0123456789'' [0, 1, 2, 3, 4, 5, 6, 7, 8, 9]) c"

definition is_digit :: "char \<Rightarrow> bool" where
  "is_digit c = (digit_val c \<noteq> None)"

definition dv :: "char \<Rightarrow> nat" where
  "dv c = (case digit_val c of Some v \<Rightarrow> v | None \<Rightarrow> 0)"

definition digit_char :: "nat \<Rightarrow> char" where
  "digit_char n = ''0123456789'' ! (n mod 10)"

text \<open>A character class \<^verbatim>\<open>[lo-hi]\<close> of decimal digits.\<close>

definition in_range :: "nat \<Rightarrow> nat \<Rightarrow> char \<Rightarrow> bool" where
  "in_range lo hi c = (case digit_val c of Some v \<Rightarrow> lo \<le> v \<and> v \<le> hi | None \<Rightarrow> False)"

text \<open>
  A format string is read into its directives. Only the directives that the source uses
  are modelled: \<^verbatim>\<open>%d\<close>, \<^verbatim>\<open>%m\<close> and \<^verbatim>\<open>%Y\<close>.
\<close>

datatype directive = Day | Month | Year | Lit char

definition directive_of :: "char \<Rightarrow> directive option" where
  "directive_of c =
     (if c = CHR ''d'' then Some Day
      else if c = CHR ''m'' then Some Month
      else if c = CHR ''Y'' then Some Year
      else None)"

fun compile_format :: "string \<Rightarrow> directive list option" where
  "compile_format [] = Some []"
| "compile_format [c] = (if c = CHR ''%'' then None else Some [Lit c])"
| "compile_format (c # d # ds) =
     (if c = CHR ''%''
      then (case directive_of d of
              None \<Rightarrow> None
            | Some x \<Rightarrow> map_option ((#) x) (compile_format ds))
      else map_option ((#) (Lit c)) (compile_format (d # ds)))"

text \<open>
  \<^verbatim>\<open>strptime\<close> turns each directive into a regular expression and matches the whole
  pattern at the start of the text, with backtracking. A match is modelled by the list of
  all ways to match, in the order in which the backtracking matcher tries them: each
  entry is the number read and the text that remains.
  \<^item> \<^verbatim>\<open>%d\<close> is \<^verbatim>\<open>3[0-1]|[1-2]\d|0[1-9]|[1-9]| [1-9]\<close>;
  \<^item> \<^verbatim>\<open>%m\<close> is \<^verbatim>\<open>1[0-2]|0[1-9]|[1-9]\<close>;
  \<^item> \<^verbatim>\<open>%Y\<close> is \<^verbatim>\<open>\d\d\d\d\<close>.
\<close>

definition two_digits :: "nat \<Rightarrow> nat \<Rightarrow> nat \<Rightarrow> nat \<Rightarrow> string \<Rightarrow> (nat \<times> string) list" where
  "two_digits lo1 hi1 lo2 hi2 s =
     (case s of
        a # b # r \<Rightarrow>
          if in_range lo1 hi1 a \<and> in_range lo2 hi2 b then [(10 * dv a + dv b, r)] else []
      | _ \<Rightarrow> [])"

definition one_digit :: "nat \<Rightarrow> nat \<Rightarrow> string \<Rightarrow> (nat \<times> string) list" where
  "one_digit lo hi s =
     (case s of a # r \<Rightarrow> if in_range lo hi a then [(dv a, r)] else [] | [] \<Rightarrow> [])"

definition re_day :: "string \<Rightarrow> (nat \<times> string) list" where
  "re_day s =
     two_digits 3 3 0 1 s @ two_digits 1 2 0 9 s @ two_digits 0 0 1 9 s @ one_digit 1 9 s @
     (case s of c # r \<Rightarrow> if c = CHR '' '' then one_digit 1 9 r else [] | [] \<Rightarrow> [])"

definition re_month :: "string \<Rightarrow> (nat \<times> string) list" where
  "re_month s = two_digits 1 1 0 2 s @ two_digits 0 0 1 9 s @ one_digit 1 9 s"

definition re_year :: "string \<Rightarrow> (nat \<times> string) list" where
  "re_year s =
     (case s of
        a # b # c # d # r \<Rightarrow>
          if is_digit a \<and> is_digit b \<and> is_digit c \<and> is_digit d
          then [(1000 * dv a + 100 * dv b + 10 * dv c + dv d, r)] else []
      | _ \<Rightarrow> [])"

fun re_match :: "directive list \<Rightarrow> string \<Rightarrow> ((directive \<times> nat) list \<times> string) list" where
  "re_match [] s = [([], s)]"
| "re_match (Lit c # ds) s =
     (case s of x # r \<Rightarrow> if x = c then re_match ds r else [] | [] \<Rightarrow> [])"
| "re_match (Day # ds) s =
     concat (map (\<lambda>(v, r). map (\<lambda>(g, r'). ((Day, v) # g, r')) (re_match ds r)) (re_day s))"
| "re_match (Month # ds) s =
     concat (map (\<lambda>(v, r). map (\<lambda>(g, r'). ((Month, v) # g, r')) (re_match ds r)) (re_month s))"
| "re_match (Year # ds) s =
     concat (map (\<lambda>(v, r). map (\<lambda>(g, r'). ((Year, v) # g, r')) (re_match ds r)) (re_year s))"

text \<open>The value of a group, or the default of \<^verbatim>\<open>strptime\<close> when the format has none.\<close>

definition group :: "(directive \<times> nat) list \<Rightarrow> directive \<Rightarrow> nat \<Rightarrow> nat" where
  "group g d dflt = (case map_of g d of Some v \<Rightarrow> v | None \<Rightarrow> dflt)"

text \<open>
  \<^verbatim>\<open>datetime.strptime(s, fmt).date()\<close>; \<open>None\<close> stands for the \<^verbatim>\<open>ValueError\<close> of a
  text that does not match, of text left over after the match, and of a day that the
  calendar does not have.
\<close>

definition strptime :: "string \<Rightarrow> string \<Rightarrow> date option" where
  "strptime s fmt =
     (case compile_format fmt of
        None \<Rightarrow> None
      | Some ds \<Rightarrow>
          (case re_match ds s of
             [] \<Rightarrow> None
           | (g, rest) # _ \<Rightarrow>
               if rest \<noteq> [] then None
               else (let y = group g Year 1900; m = group g Month 1; d = group g Day 1
                     in if valid_date y m d then Some \<lparr>year = y, month = m, day = d\<rparr>
                        else None)))"

definition pad2 :: "nat \<Rightarrow> string" where
  "pad2 n = [digit_char (n div 10 mod 10), digit_char (n mod 10)]"

definition pad4 :: "nat \<Rightarrow> string" where
  "pad4 n = [digit_char (n div 1000 mod 10), digit_char (n div 100 mod 10),
             digit_char (n div 10 mod 10), digit_char (n mod 10)]"

fun render :: "directive list \<Rightarrow> date \<Rightarrow> string" where
  "render [] dt = []"
| "render (Day # ds) dt = pad2 (day dt) @ render ds dt"
| "render (Month # ds) dt = pad2 (month dt) @ render ds dt"
| "render (Year # ds) dt = pad4 (year dt) @ render ds dt"
| "render (Lit c # ds) dt = c # render ds dt"

text \<open>
  \<^verbatim>\<open>d.strftime(fmt)\<close>: day and month as two digits, the year as four digits. A format
  with a directive outside the model renders as the empty text.
\<close>

definition strftime :: "date \<Rightarrow> string \<Rightarrow> string" where
  "strftime dt fmt = (case compile_format fmt of Some ds \<Rightarrow> render ds dt | None \<Rightarrow> [])"

section \<open>Raw cells\<close>

text \<open>
  The source reads a raw cell in two ways only: \<^verbatim>\<open>pd.isna(x)\<close> and \<^verbatim>\<open>str(x)\<close>
  (\<^verbatim>\<open>astype(str)\<close> on a column). A cell is therefore the missing marker \<open>NaN\<close> that
  the readers store for an empty cell, or a value given by its text form.
\<close>

datatype cell = NaN | Val string

fun isna :: "cell \<Rightarrow> bool" where
  "isna NaN = True"
| "isna (Val s) = False"

fun str :: "cell \<Rightarrow> string" where
  "str NaN = ''nan''"
| "str (Val s) = s"

section \<open>The date normalizer\<close>

definition fmts :: "string list" where
  "fmts = [''%d/%m/%Y'', ''%d-%m-%Y'', ''%Y-%m-%d'', ''%m/%d/%Y'', ''%Y/%m/%d'', ''%d.%m.%Y'']"

text \<open>The loop over the formats: the first format that parses wins.\<close>

fun try_formats :: "string \<Rightarrow> string list \<Rightarrow> date option" where
  "try_formats s [] = None"
| "try_formats s (fmt # rest) =
     (case strptime s fmt of Some d \<Rightarrow> Some d | None \<Rightarrow> try_formats s rest)"

text \<open>
  \<open>to_datetime\<close> stands for the library call
  \<^verbatim>\<open>pd.to_datetime(s, dayfirst=True, errors="coerce")\<close> followed by \<^verbatim>\<open>.date()\<close>;
  its \<open>None\<close> is \<^verbatim>\<open>NaT\<close> or an exception, both of which the source turns into
  \<^verbatim>\<open>NaT\<close>. The result \<open>None\<close> of \<open>parse_date_value\<close> is \<^verbatim>\<open>NaT\<close>.
\<close>

definition parse_date_value :: "(string \<Rightarrow> date option) \<Rightarrow> cell \<Rightarrow> date option" where
  "parse_date_value to_datetime val =
     (if isna val then None
      else (let s = strip (str val)
            in case try_formats s fmts of
                 Some d \<Rightarrow> Some d
               | None \<Rightarrow> to_datetime s))"

definition format_date_series :: "(string \<Rightarrow> date option) \<Rightarrow> cell list \<Rightarrow> string list" where
  "format_date_series to_datetime s =
     (let parsed = map (parse_date_value to_datetime) s
      in map (\<lambda>d. case d of Some dt \<Rightarrow> strftime dt ''%d/%m/%Y'' | None \<Rightarrow> []) parsed)"

section \<open>Python floats\<close>

text \<open>
  A Python \<^verbatim>\<open>float\<close> is a binary64 number: a finite value, given by the rational it
  denotes, an infinity or the not-a-number. The two zeros are not told apart (they compare
  equal, and the source only compares).
\<close>

datatype pyfloat = Fin rat | PosInf | NegInf | FNaN

fun fneg :: "pyfloat \<Rightarrow> pyfloat" where
  "fneg (Fin x) = Fin (- x)"
| "fneg PosInf = NegInf"
| "fneg NegInf = PosInf"
| "fneg FNaN = FNaN"

definition pow2 :: "int \<Rightarrow> rat" where
  "pow2 e = (if 0 \<le> e then 2 ^ nat e else 1 / 2 ^ nat (- e))"

text \<open>\<^verbatim>\<open>int.bit_length\<close>: the number of binary digits of a positive integer.\<close>

function bit_length :: "int \<Rightarrow> nat" where
  "bit_length n = (if n \<le> 0 then 0 else Suc (bit_length (n div 2)))"
  by pat_completeness auto
termination
  by (relation "measure nat") auto

text \<open>For \<open>0 < x\<close>, the exponent \<open>e\<close> with \<open>2 ^ e \<le> x < 2 ^ (e + 1)\<close>.\<close>

definition ilog2 :: "rat \<Rightarrow> int" where
  "ilog2 x =
     (if 1 \<le> x then int (bit_length \<lfloor>x\<rfloor>) - 1
      else - int (bit_length (\<lceil>1 / x\<rceil> - 1)))"

definition round_half_even :: "rat \<Rightarrow> int" where
  "round_half_even r =
     (let f = \<lfloor>r\<rfloor>; d = r - of_int f
      in if d < 1 / 2 then f
         else if 1 / 2 < d then f + 1
         else if even f then f else f + 1)"

text \<open>
  Rounding of a positive rational to binary64, to nearest with ties to even: 53 significant
  bits, subnormal numbers below \<open>2 ^ (-1022)\<close>, overflow to infinity.
\<close>

definition b64_pos :: "rat \<Rightarrow> pyfloat" where
  "b64_pos x =
     (let q = pow2 (max (ilog2 x) (- 1022) - 52);
          y = of_int (round_half_even (x / q)) * q
      in if pow2 1024 \<le> y then PosInf else Fin y)"

definition b64 :: "rat \<Rightarrow> pyfloat" where
  "b64 x = (if x = 0 then Fin 0 else if 0 < x then b64_pos x else fneg (b64_pos (- x)))"

subsection \<open>\<^verbatim>\<open>float(s)\<close>\<close>

text \<open>
  \<^verbatim>\<open>float\<close> accepts, between optional white space, an optional sign followed by
  \<^verbatim>\<open>inf\<close>, \<^verbatim>\<open>infinity\<close> or \<^verbatim>\<open>nan\<close> in any case, or by a decimal number: digits with an
  optional point (at least one digit), and an optional exponent. Single underscores may
  stand between digits. \<open>None\<close> stands for the \<^verbatim>\<open>ValueError\<close>.
\<close>

fun drop_underscores :: "char \<Rightarrow> string \<Rightarrow> string option" where
  "drop_underscores prev [] = (if prev = CHR ''_'' then None else Some [])"
| "drop_underscores prev (c # cs) =
     (if c = CHR ''_''
      then (if is_digit prev then drop_underscores c cs else None)
      else if prev = CHR ''_'' \<and> \<not> is_digit c then None
      else map_option ((#) c) (drop_underscores c cs))"

definition parse_sign :: "string \<Rightarrow> bool \<times> string" where
  "parse_sign s =
     (case s of
        [] \<Rightarrow> (False, [])
      | c # r \<Rightarrow> if c = CHR ''-'' then (True, r) else if c = CHR ''+'' then (False, r)
                 else (False, s))"

definition digits_val :: "string \<Rightarrow> int" where
  "digits_val ds = foldl (\<lambda>n c. 10 * n + int (dv c)) 0 ds"

definition pow10 :: "int \<Rightarrow> rat" where
  "pow10 e = (if 0 \<le> e then 10 ^ nat e else 1 / 10 ^ nat (- e))"

text \<open>The exact value of an unsigned decimal number, or \<open>None\<close> when the text is none.\<close>

definition parse_decimal :: "string \<Rightarrow> rat option" where
  "parse_decimal s =
     (let ip = takeWhile is_digit s;
          r1 = dropWhile is_digit s;
          (fp, r2) = (case r1 of
                        [] \<Rightarrow> ([], [])
                      | c # r \<Rightarrow> if c = CHR ''.''
                                 then (takeWhile is_digit r, dropWhile is_digit r)
                                 else ([], r1))
      in if ip = [] \<and> fp = [] then None
         else (case r2 of
                 [] \<Rightarrow> Some (of_int (digits_val (ip @ fp)) * pow10 (- int (length fp)))
               | c # r \<Rightarrow>
                   if c = CHR ''e'' \<or> c = CHR ''E''
                   then (let (neg, ex) = parse_sign r
                         in if ex \<noteq> [] \<and> list_all is_digit ex
                            then Some (of_int (digits_val (ip @ fp)) *
                                       pow10 ((if neg then - digits_val ex
                                               else digits_val ex)
                                              - int (length fp)))
                            else None)
                   else None))"

definition py_float :: "string \<Rightarrow> pyfloat option" where
  "py_float text =
     (case drop_underscores (CHR 0x00) (strip text) of
        None \<Rightarrow> None
      | Some t \<Rightarrow>
          (let (neg, r) = parse_sign t
           in if lower r = ''inf'' \<or> lower r = ''infinity''
              then Some (if neg then NegInf else PosInf)
              else if lower r = ''nan'' then Some FNaN
              else (case parse_decimal r of
                      None \<Rightarrow> None
                    | Some v \<Rightarrow> Some (b64 (if neg then - v else v)))))"

section \<open>The numeric normalizer\<close>

text \<open>The result of \<open>to_numeric_value\<close>: \<^verbatim>\<open>pd.NA\<close> or a float.\<close>

datatype numeric = NA | Flt pyfloat

text \<open>
  \<open>to_numeric\<close> stands for the library call
  \<^verbatim>\<open>float(pd.to_numeric(s, errors="coerce"))\<close>: \<open>Some FNaN\<close> is the not-a-number that
  the coercion gives for a text it cannot read, \<open>None\<close> an exception.
\<close>

definition to_numeric_value :: "(string \<Rightarrow> pyfloat option) \<Rightarrow> cell \<Rightarrow> numeric" where
  "to_numeric_value to_numeric x =
     (if isna x \<or> strip (str x) = [] then NA
      else (let s = remove_char CHR '' '' (remove_char CHR '','' (str x));
                s = (if startswith s ''('' \<and> endswith s '')''
                     then CHR ''-'' # butlast (tl s) else s)
            in case py_float s of
                 Some v \<Rightarrow> Flt v
               | None \<Rightarrow> (case to_numeric s of Some v \<Rightarrow> Flt v | None \<Rightarrow> NA)))"

text \<open>\<^verbatim>\<open>astype("Float64")\<close>: in the nullable float column a not-a-number becomes missing.\<close>

fun astype_Float64 :: "numeric \<Rightarrow> numeric" where
  "astype_Float64 NA = NA"
| "astype_Float64 (Flt FNaN) = NA"
| "astype_Float64 (Flt v) = Flt v"

fun notna :: "numeric \<Rightarrow> bool" where
  "notna NA = False"
| "notna (Flt v) = True"

text \<open>The comparisons \<^verbatim>\<open>v > 0\<close> and \<^verbatim>\<open>v != 0\<close> of floats.\<close>

fun gt_zero :: "pyfloat \<Rightarrow> bool" where
  "gt_zero (Fin x) = (0 < x)"
| "gt_zero PosInf = True"
| "gt_zero NegInf = False"
| "gt_zero FNaN = False"

fun ne_zero :: "pyfloat \<Rightarrow> bool" where
  "ne_zero (Fin x) = (x \<noteq> 0)"
| "ne_zero PosInf = True"
| "ne_zero NegInf = True"
| "ne_zero FNaN = True"

text \<open>
  \<^verbatim>\<open>round(2)\<close> of a float column is numpy's: multiply by 100, round to the nearest
  integer with ties to even, divide by 100, each step in binary64. A missing value stays
  missing.
\<close>

fun np_round2 :: "pyfloat \<Rightarrow> pyfloat" where
  "np_round2 (Fin x) =
     (case b64 (x * 100) of
        Fin y \<Rightarrow> b64 (of_int (round_half_even y) / 100)
      | v \<Rightarrow> v)"
| "np_round2 v = v"

fun round2 :: "numeric \<Rightarrow> numeric" where
  "round2 NA = NA"
| "round2 (Flt v) = Flt (np_round2 v)"

text \<open>\<^verbatim>\<open>fillna(0)\<close>.\<close>

fun fillna0 :: "numeric \<Rightarrow> pyfloat" where
  "fillna0 NA = Fin 0"
| "fillna0 (Flt v) = v"

section \<open>The transform pipeline\<close>

text \<open>
  A table is the list of its columns in table order, each a label with its cells. The
  pipeline fails with a \<^verbatim>\<open>ValueError\<close> that carries its message. Selecting a
  column by a label that no column bears is a \<^verbatim>\<open>KeyError\<close>; a label that several
  columns bear selects a table instead of a column, on which the cell operations of the
  source raise: that failure is \<open>NotASeries\<close>.
\<close>

type_synonym dataframe = "(string \<times> cell list) list"

datatype error = ValueError string | KeyError string | NotASeries string

definition columns :: "dataframe \<Rightarrow> string list" where
  "columns df = map fst df"

definition getitem :: "dataframe \<Rightarrow> string \<Rightarrow> error + cell list" where
  "getitem df c =
     (case filter (\<lambda>col. fst col = c) df of
        [] \<Rightarrow> Inl (KeyError c)
      | [col] \<Rightarrow> Inr (snd col)
      | _ \<Rightarrow> Inl (NotASeries c))"

definition CUST_ID_COL_CANDIDATES :: "string list" where
  "CUST_ID_COL_CANDIDATES = [''customer_id'']"

definition TRANS_NO_COL_CANDIDATES :: "string list" where
  "TRANS_NO_COL_CANDIDATES = [''transaction_number'']"

definition DATE_COL_CANDIDATES :: "string list" where
  "DATE_COL_CANDIDATES = [''date'']"

definition BALANCE_COL_CANDIDATES :: "string list" where
  "BALANCE_COL_CANDIDATES = [''balance'']"

text \<open>The rightwards arrow of the diagnostics keys, in UTF-8.\<close>

definition arrow :: string where
  "arrow = [CHR 0xE2, CHR 0x86, CHR 0x92]"

definition key_customer_id :: string where
  "key_customer_id = ''customer_id '' @ arrow @ '' Debtor Reference''"

definition key_transaction_number :: string where
  "key_transaction_number = ''transaction_number '' @ arrow @ '' Document Number''"

definition key_date :: string where
  "key_date = ''date '' @ arrow @ '' Document Date''"

definition key_balance :: string where
  "key_balance = ''balance '' @ arrow @ '' Document Balance''"

text \<open>
  The regular expression \<^verbatim>\<open>(\d{6})$\<close> under \<^verbatim>\<open>re.search\<close>: the leftmost position
  at which six digits are followed by the end of the text. In Python \<^verbatim>\<open>$\<close> also
  matches just before a line feed that ends the text.
\<close>

definition at_end :: "string \<Rightarrow> bool" where
  "at_end r = (r = [] \<or> r = [CHR 0x0A])"

definition match_six_digits :: "string \<Rightarrow> bool" where
  "match_six_digits s = (6 \<le> length s \<and> list_all is_digit (take 6 s) \<and> at_end (drop 6 s))"

fun search_six_digits :: "string \<Rightarrow> string option" where
  "search_six_digits [] = None"
| "search_six_digits (c # cs) =
     (if match_six_digits (c # cs) then Some (take 6 (c # cs)) else search_six_digits cs)"

text \<open>\<^verbatim>\<open>.str.extract(r"(\d{6})$", expand=False).fillna("")\<close> on one text.\<close>

definition extract_six_digits :: "string \<Rightarrow> string" where
  "extract_six_digits s = (case search_six_digits s of Some g \<Rightarrow> g | None \<Rightarrow> [])"

text \<open>\<^verbatim>\<open>out.loc[mask]\<close> on one column: the cells at which the mask holds, in order.\<close>

definition loc_mask :: "bool list \<Rightarrow> 'a list \<Rightarrow> 'a list" where
  "loc_mask keep xs = map snd (filter fst (zip keep xs))"

record output_table =
  debtor_reference :: "string list"
  transaction_type :: "string list"
  document_number :: "string list"
  document_date :: "string list"
  document_balance :: "numeric list"

record debug =
  detected_columns :: "(string \<times> string option) list"
  rows_removed_balance_0 :: int

text \<open>The balance column: \<^verbatim>\<open>.apply(to_numeric_value).astype("Float64")\<close>.\<close>

definition balance_column :: "(string \<Rightarrow> pyfloat option) \<Rightarrow> cell list \<Rightarrow> numeric list" where
  "balance_column to_numeric cells = map (\<lambda>x. astype_Float64 (to_numeric_value to_numeric x)) cells"

definition transaction_type_of :: "numeric \<Rightarrow> string" where
  "transaction_type_of v =
     (if notna v \<and> (case v of Flt x \<Rightarrow> gt_zero x | NA \<Rightarrow> False) then ''INV'' else ''CRD'')"

definition nonzero_mask :: "numeric list \<Rightarrow> bool list" where
  "nonzero_mask balance = map (\<lambda>v. ne_zero (fillna0 v)) balance"

text \<open>An exception ends the computation: the rest runs only on a result.\<close>

definition and_then :: "error + 'a \<Rightarrow> ('a \<Rightarrow> error + 'b) \<Rightarrow> error + 'b" where
  "and_then r f = (case r of Inl e \<Rightarrow> Inl e | Inr x \<Rightarrow> f x)"

text \<open>
  The part of \<open>process_dataframe\<close> after the check of the detected columns. The output
  columns are built in the order of the source and all are cut by the same mask.
\<close>

definition build_output ::
  "(string \<Rightarrow> date option) \<Rightarrow> (string \<Rightarrow> pyfloat option) \<Rightarrow> dataframe \<Rightarrow>
   (string \<times> string option) list \<Rightarrow> string \<Rightarrow> string \<Rightarrow> string \<Rightarrow> string \<Rightarrow>
   error + (output_table \<times> debug)" where
  "build_output to_datetime to_numeric df detected cust_id_col doc_no_col doc_date_col balance_col =
     and_then (getitem df balance_col) (\<lambda>balance_cells.
     and_then (getitem df cust_id_col) (\<lambda>cust_cells.
     and_then (getitem df doc_no_col) (\<lambda>doc_no_cells.
     and_then (getitem df doc_date_col) (\<lambda>date_cells.
       (let balance = balance_column to_numeric balance_cells;
            col_a = map (\<lambda>x. extract_six_digits (str x)) cust_cells;
            col_b = map transaction_type_of balance;
            col_c = map (\<lambda>x. strip (str x)) doc_no_cells;
            col_d = format_date_series to_datetime date_cells;
            col_e = map round2 balance;
            nz = nonzero_mask balance;
            removed = int (length balance) - int (length (filter id nz))
        in Inr (\<lparr>debtor_reference = loc_mask nz col_a,
                  transaction_type = loc_mask nz col_b,
                  document_number = loc_mask nz col_c,
                  document_date = loc_mask nz col_d,
                  document_balance = loc_mask nz col_e\<rparr>,
                \<lparr>detected_columns = detected, rows_removed_balance_0 = removed\<rparr>))))))"

definition process_dataframe ::
  "(string \<Rightarrow> date option) \<Rightarrow> (string \<Rightarrow> pyfloat option) \<Rightarrow> dataframe \<Rightarrow>
   error + (output_table \<times> debug)" where
  "process_dataframe to_datetime to_numeric df =
     (let cust_id_col = pick_column (columns df) CUST_ID_COL_CANDIDATES;
          doc_no_col = pick_column (columns df) TRANS_NO_COL_CANDIDATES;
          doc_date_col = pick_column (columns df) DATE_COL_CANDIDATES;
          balance_col = pick_column (columns df) BALANCE_COL_CANDIDATES;
          detected = [(key_customer_id, cust_id_col),
                      (key_transaction_number, doc_no_col),
                      (key_date, doc_date_col),
                      (key_balance, balance_col)];
          missing = map fst (filter (\<lambda>kv. snd kv = None) detected);
          failure = Inl (ValueError (''Missing required columns: '' @ join '', '' missing))
      in if missing \<noteq> [] then failure
         else (case (cust_id_col, doc_no_col, doc_date_col, balance_col) of
                 (Some a, Some b, Some c, Some d) \<Rightarrow>
                   build_output to_datetime to_numeric df detected a b c d
               | _ \<Rightarrow> failure))"

section \<open>Notions of the specification\<close>

text \<open>
  The normalized form of a header or an alias: lower-cased and trimmed. The form compared
  by the substring phase: lower-cased, with every space removed.
\<close>

definition normalized :: "string \<Rightarrow> string" where
  "normalized s = strip (lower s)"

definition squeezed :: "string \<Rightarrow> string" where
  "squeezed s = remove_char CHR '' '' (lower s)"

text \<open>An alias matches exactly when some header has its normalized form.\<close>

definition exact_alias :: "string list \<Rightarrow> string \<Rightarrow> bool" where
  "exact_alias cols cand = (\<exists>h \<in> set cols. normalized h = normalized cand)"

text \<open>A header matches by substring when it contains the squeezed form of some alias.\<close>

definition substring_header :: "string list \<Rightarrow> string \<Rightarrow> bool" where
  "substring_header cands h = (\<exists>cand \<in> set cands. contains (squeezed h) (squeezed cand))"

text \<open>
  The cells of the column detected for a list of aliases; the empty column when no column
  is detected or the label does not select one column.
\<close>

definition detected_cells :: "dataframe \<Rightarrow> string list \<Rightarrow> cell list" where
  "detected_cells df candidates =
     (case pick_column (columns df) candidates of
        None \<Rightarrow> []
      | Some c \<Rightarrow> (case getitem df c of Inl e \<Rightarrow> [] | Inr cells \<Rightarrow> cells))"

text \<open>The normalized balance of a raw balance cell, as stored in the balance column.\<close>

definition normalized_balance :: "(string \<Rightarrow> pyfloat option) \<Rightarrow> cell \<Rightarrow> numeric" where
  "normalized_balance to_numeric x = astype_Float64 (to_numeric_value to_numeric x)"

text \<open>A normalized balance is present and strictly greater than zero.\<close>

fun positive :: "numeric \<Rightarrow> bool" where
  "positive NA = False"
| "positive (Flt (Fin x)) = (0 < x)"
| "positive (Flt PosInf) = True"
| "positive (Flt NegInf) = False"
| "positive (Flt FNaN) = False"

text \<open>A normalized balance, with no value read as zero, is not exactly zero.\<close>

fun nonzero :: "numeric \<Rightarrow> bool" where
  "nonzero NA = False"
| "nonzero (Flt (Fin x)) = (x \<noteq> 0)"
| "nonzero (Flt v) = True"

text \<open>
  An input row is the tuple of the cells that the four detected columns hold at one
  index: customer id, transaction number, date, balance. An output row is the tuple of
  the five output cells at one index.
\<close>

type_synonym input_row = "cell \<times> cell \<times> cell \<times> cell"

type_synonym output_row = "string \<times> string \<times> string \<times> string \<times> numeric"

definition input_rows :: "dataframe \<Rightarrow> input_row list" where
  "input_rows df =
     zip (detected_cells df CUST_ID_COL_CANDIDATES)
       (zip (detected_cells df TRANS_NO_COL_CANDIDATES)
         (zip (detected_cells df DATE_COL_CANDIDATES)
              (detected_cells df BALANCE_COL_CANDIDATES)))"

definition output_rows :: "output_table \<Rightarrow> output_row list" where
  "output_rows out =
     zip (debtor_reference out)
       (zip (transaction_type out)
         (zip (document_number out)
           (zip (document_date out) (document_balance out))))"

definition row_balance :: "(string \<Rightarrow> pyfloat option) \<Rightarrow> input_row \<Rightarrow> numeric" where
  "row_balance to_numeric r = normalized_balance to_numeric (snd (snd (snd r)))"

text \<open>The output row that belongs to an input row.\<close>

definition transform_row ::
  "(string \<Rightarrow> date option) \<Rightarrow> (string \<Rightarrow> pyfloat option) \<Rightarrow> input_row \<Rightarrow> output_row" where
  "transform_row to_datetime to_numeric r =
     (case r of (cust, doc_no, dt, bal) \<Rightarrow>
        (extract_six_digits (str cust),
         transaction_type_of (normalized_balance to_numeric bal),
         strip (str doc_no),
         (case parse_date_value to_datetime dt of
            Some d \<Rightarrow> strftime d ''%d/%m/%Y'' | None \<Rightarrow> []),
         round2 (normalized_balance to_numeric bal)))"

text \<open>The diagnostics keys of the logical fields that are not detected, in field order.\<close>

definition missing_fields :: "dataframe \<Rightarrow> string list" where
  "missing_fields df =
     map fst (filter (\<lambda>kc. pick_column (columns df) (snd kc) = None)
       [(key_customer_id, CUST_ID_COL_CANDIDATES),
        (key_transaction_number, TRANS_NO_COL_CANDIDATES),
        (key_date, DATE_COL_CANDIDATES),
        (key_balance, BALANCE_COL_CANDIDATES)])"

text \<open>The input rows that survive the filter, in input order.\<close>

definition surviving_rows :: "(string \<Rightarrow> pyfloat option) \<Rightarrow> dataframe \<Rightarrow> input_row list" where
  "surviving_rows to_numeric df = filter (\<lambda>r. nonzero (row_balance to_numeric r)) (input_rows df)"

section \<open>Example tables\<close>

definition example_table :: dataframe where
  "example_table =
     [(''customer_id'', [Val ''CUST000123456'', Val ''CUST000000001'', Val ''AB12'', NaN]),
      (''transaction_number'', [Val ''TXN1'', Val ''TXN2'', NaN, Val '' TXN4 '']),
      (''date'', [Val ''07/03/2024'', Val ''2024-01-01'', Val ''2024-03-07'', NaN]),
      (''balance'', [Val ''1,200.00'', Val ''0'', Val ''(50)'', NaN])]"

definition example_without_balance :: dataframe where
  "example_without_balance =
     [(''Customer_ID '', [Val ''CUST000123456'']),
      (''when'', [Val ''07/03/2024''])]"

text \<open>The normalized balances of the rows that survive the filter, in input order.\<close>

definition kept_balances :: "(string \<Rightarrow> pyfloat option) \<Rightarrow> dataframe \<Rightarrow> numeric list" where
  "kept_balances to_numeric df =
     filter nonzero (map (normalized_balance to_numeric) (detected_cells df BALANCE_COL_CANDIDATES))"

text \<open>The result of the pipeline on \<open>example_table\<close>.\<close>

definition example_output :: output_table where
  "example_output =
     \<lparr>debtor_reference = [''123456'', []],
      transaction_type = [''INV'', ''CRD''],
      document_number = [''TXN1'', ''nan''],
      document_date = [''07/03/2024'', ''07/03/2024''],
      document_balance = [Flt (Fin 1200), Flt (Fin (- 50))]\<rparr>"

definition example_debug :: debug where
  "example_debug =
     \<lparr>detected_columns =
        [(key_customer_id, Some ''customer_id''),
         (key_transaction_number, Some ''transaction_number''),
         (key_date, Some ''date''),
         (key_balance, Some ''balance'')],
      rows_removed_balance_0 = 2\<rparr>"

text \<open>Library calls that read nothing: the lenient parsers reject every text.\<close>

definition no_datetime :: "string \<Rightarrow> date option" where
  "no_datetime s = None"

definition no_numeric :: "string \<Rightarrow> pyfloat option" where
  "no_numeric s = Some FNaN"

text \<open>
  The last six characters of a text are decimal digits; the text without one line feed at
  its end; the Debtor Reference as the amended claim C6 words it.
\<close>

definition ends_with_six_digits :: "string \<Rightarrow> bool" where
  "ends_with_six_digits s = (6 \<le> length s \<and> list_all is_digit (drop (length s - 6) s))"

definition without_final_newline :: "string \<Rightarrow> string" where
  "without_final_newline s = (if s \<noteq> [] \<and> last s = CHR 0x0A then butlast s else s)"

definition last_six_digits :: "string \<Rightarrow> string" where
  "last_six_digits s =
     (let t = without_final_newline s
      in if ends_with_six_digits t then drop (length t - 6) t else [])"

text \<open>A customer id that ends in a line feed, and a balance that rounds to zero.\<close>

definition example_newline_table :: dataframe where
  "example_newline_table =
     [(''customer_id'', [Val (''CUST123456'' @ [CHR 0x0A])]),
      (''transaction_number'', [Val ''TXN1'']),
      (''date'', [Val ''07/03/2024'']),
      (''balance'', [Val ''5''])]"

definition example_small_balance_table :: dataframe where
  "example_small_balance_table =
     [(''customer_id'', [Val ''CUST000123456'']),
      (''transaction_number'', [Val ''TXN1'']),
      (''date'', [Val ''07/03/2024'']),
      (''balance'', [Val ''0.004''])]"

text \<open>The results of the pipeline on these two tables.\<close>

definition example_newline_output :: output_table where
  "example_newline_output =
     \<lparr>debtor_reference = [''123456''],
      transaction_type = [''INV''],
      document_number = [''TXN1''],
      document_date = [''07/03/2024''],
      document_balance = [Flt (Fin 5)]\<rparr>"

definition example_small_balance_output :: output_table where
  "example_small_balance_output =
     \<lparr>debtor_reference = [''123456''],
      transaction_type = [''INV''],
      document_number = [''TXN1''],
      document_date = [''07/03/2024''],
      document_balance = [Flt (Fin 0)]\<rparr>"

definition example_kept_debug :: debug where
  "example_kept_debug =
     \<lparr>detected_columns =
        [(key_customer_id, Some ''customer_id''),
         (key_transaction_number, Some ''transaction_number''),
         (key_date, Some ''date''),
         (key_balance, Some ''balance'')],
      rows_removed_balance_0 = 0\<rparr>"

text \<open>
  The numeric normalizer in the words of the specification: the text without its commas
  and spaces, with wrapping parentheses replaced by a minus sign; a result that is no
  value, which is the missing value or a not-a-number.
\<close>

definition accounting_text :: "string \<Rightarrow> string" where
  "accounting_text s =
     (let t = filter (\<lambda>c. c \<noteq> CHR '','' \<and> c \<noteq> CHR '' '') s
      in if t \<noteq> [] \<and> hd t = CHR ''('' \<and> last t = CHR '')''
         then CHR ''-'' # butlast (tl t) else t)"

fun no_value :: "numeric \<Rightarrow> bool" where
  "no_value NA = True"
| "no_value (Flt FNaN) = True"
| "no_value (Flt v) = False"

section \<open>Evaluation of the text helpers\<close>

text \<open>Definitions unfold at character literals only, never at a variable.\<close>

lemma lower_char_Char:
  "lower_char (Char b0 b1 b2 b3 b4 b5 b6 b7) =
     (case map_of (zip ''ABCDEFGHIJKLMNOPQRSTUVWXYZ'' ''abcdefghijklmnopqrstuvwxyz'')
             (Char b0 b1 b2 b3 b4 b5 b6 b7) of
        Some l \<Rightarrow> l
      | None \<Rightarrow> Char b0 b1 b2 b3 b4 b5 b6 b7)"
  by (simp only: lower_char_def)

lemma is_space_Char:
  "is_space (Char b0 b1 b2 b3 b4 b5 b6 b7) =
     (Char b0 b1 b2 b3 b4 b5 b6 b7 \<in> set [CHR 0x09, CHR 0x0A, CHR 0x0B, CHR 0x0C, CHR 0x0D,
                CHR 0x1C, CHR 0x1D, CHR 0x1E, CHR 0x1F, CHR '' ''])"
  by (simp only: is_space_def)

lemma digit_val_Char:
  "digit_val (Char b0 b1 b2 b3 b4 b5 b6 b7) =
     map_of (zip ''0123456789'' [0, 1, 2, 3, 4, 5, 6, 7, 8, 9]) (Char b0 b1 b2 b3 b4 b5 b6 b7)"
  by (simp only: digit_val_def)

lemmas text_eval = strip_def lstrip_def is_space_Char lower_def lower_char_Char remove_char_def
  endswith_def normalized_def squeezed_def Let_def

lemma startswith_iff: "startswith s p \<longleftrightarrow> (\<exists>r. s = p @ r)"
  by (induction s p rule: startswith.induct) auto

lemma contains_iff: "contains s sub \<longleftrightarrow> (\<exists>p r. s = p @ sub @ r)"
proof (induction s)
  case Nil
  then show ?case by auto
next
  case (Cons c cs)
  note IH = Cons.IH
  show ?case
  proof
    assume "contains (c # cs) sub"
    then consider "startswith (c # cs) sub" | "contains cs sub" by auto
    then show "\<exists>p r. c # cs = p @ sub @ r"
    proof cases
      case 1
      then obtain r where "c # cs = sub @ r" by (auto simp: startswith_iff)
      then have "c # cs = [] @ sub @ r" by simp
      then show ?thesis by blast
    next
      case 2
      with IH obtain p r where "cs = p @ sub @ r" by auto
      then have "c # cs = (c # p) @ sub @ r" by simp
      then show ?thesis by blast
    qed
  next
    assume "\<exists>p r. c # cs = p @ sub @ r"
    then obtain p r where eq: "c # cs = p @ sub @ r" by auto
    show "contains (c # cs) sub"
    proof (cases p)
      case Nil
      with eq have "startswith (c # cs) sub" unfolding startswith_iff by auto
      then show ?thesis by simp
    next
      case (Cons a p')
      with eq have "cs = p' @ sub @ r" by simp
      with IH have "contains cs sub" by blast
      then show ?thesis by simp
    qed
  qed
qed

section \<open>Column detection: the two phases\<close>

lemma find_append_case:
  "find P (xs @ ys) = (case find P xs of Some x \<Rightarrow> Some x | None \<Rightarrow> find P ys)"
  by (induction xs) simp_all

lemma fold_lower_map:
  "fold (\<lambda>c m. m(strip (lower c) \<mapsto> c)) cols m k =
     (case find (\<lambda>c. strip (lower c) = k) (rev cols) of Some c \<Rightarrow> Some c | None \<Rightarrow> m k)"
  by (induction cols arbitrary: m) (auto simp: find_append_case split: option.splits)

text \<open>The lookup holds, under each key, the last header with that normalized form.\<close>

lemma lower_map_find:
  "lower_map cols k = find (\<lambda>c. strip (lower c) = k) (rev cols)"
  by (simp add: lower_map_def fold_lower_map split: option.splits)

lemma find_rev_last:
  "find P (rev xs) = (if filter P xs = [] then None else Some (last (filter P xs)))"
  by (induction xs) (auto simp: find_append_case split: option.splits)

lemma lower_map_None: "lower_map cols k = None \<longleftrightarrow> k \<notin> (\<lambda>c. strip (lower c)) ` set cols"
  by (auto simp: lower_map_find find_None_iff)

lemma exact_match_find:
  "exact_match m cands =
     (case find (\<lambda>cand. m (strip (lower cand)) \<noteq> None) cands of
        None \<Rightarrow> None
      | Some cand \<Rightarrow> m (strip (lower cand)))"
  by (induction cands) (auto split: option.splits)

lemma any_candidate_in_iff:
  "any_candidate_in low cands \<longleftrightarrow>
     (\<exists>cand \<in> set cands. contains low (remove_char CHR '' '' (lower cand)))"
  by (induction cands) auto

lemma substring_match_find:
  "substring_match cols cands =
     find (\<lambda>c. \<exists>cand \<in> set cands.
             contains (remove_char CHR '' '' (lower c)) (remove_char CHR '' '' (lower cand))) cols"
  by (induction cols) (auto simp: any_candidate_in_iff)

lemma exact_match_lower_map:
  "exact_match (lower_map cols) cands =
     (case find (exact_alias cols) cands of
        None \<Rightarrow> None
      | Some cand \<Rightarrow> Some (last (filter (\<lambda>h. normalized h = normalized cand) cols)))"
proof -
  have p: "(\<lambda>cand. lower_map cols (strip (lower cand)) \<noteq> None) = exact_alias cols"
    unfolding fun_eq_iff lower_map_None exact_alias_def normalized_def image_iff by metis
  have "lower_map cols (strip (lower cand)) =
          Some (last (filter (\<lambda>h. normalized h = normalized cand) cols))"
    if "find (exact_alias cols) cands = Some cand" for cand
  proof -
    from that have "exact_alias cols cand" by (auto simp: find_Some_iff)
    then have "filter (\<lambda>h. normalized h = normalized cand) cols \<noteq> []"
      by (auto simp: exact_alias_def filter_empty_conv)
    then show ?thesis
      by (simp add: lower_map_find find_rev_last normalized_def)
  qed
  then show ?thesis
    unfolding exact_match_find p by (simp split: option.splits)
qed

lemma pick_column_exact:
  assumes "find (exact_alias cols) cands = Some cand"
  shows "pick_column cols cands = Some (last (filter (\<lambda>h. normalized h = normalized cand) cols))"
  using assms by (simp add: pick_column_def exact_match_lower_map)

lemma pick_column_substring:
  assumes "find (exact_alias cols) cands = None"
  shows "pick_column cols cands = find (substring_header cands) cols"
proof -
  have "substring_header cands = (\<lambda>c. \<exists>cand \<in> set cands.
             contains (remove_char CHR '' '' (lower c)) (remove_char CHR '' '' (lower cand)))"
    by (simp add: fun_eq_iff substring_header_def squeezed_def)
  with assms show ?thesis
    by (simp add: pick_column_def exact_match_lower_map substring_match_find)
qed

lemma pick_column_mem: "pick_column cols cands = Some c \<Longrightarrow> c \<in> set cols"
proof (cases "find (exact_alias cols) cands")
  case None
  assume "pick_column cols cands = Some c"
  with pick_column_substring [OF None] have "find (substring_header cands) cols = Some c"
    by simp
  then show ?thesis
    by (auto simp: find_Some_iff)
next
  case (Some cand)
  assume p: "pick_column cols cands = Some c"
  let ?hs = "filter (\<lambda>h. normalized h = normalized cand) cols"
  from Some have "exact_alias cols cand" by (auto simp: find_Some_iff)
  then have "?hs \<noteq> []" by (auto simp: exact_alias_def filter_empty_conv)
  then have "last ?hs \<in> set ?hs" by (rule last_in_set)
  with p pick_column_exact [OF Some] show ?thesis by auto
qed

text \<open>
  Claim C1. Column detection follows the two-phase algorithm for every list of headers and
  every list of aliases. If some alias has the normalized form of a header, then for the
  first such alias in list order the result is a header of the table (not the alias) with
  that normalized form, whatever the substring phase would find. Otherwise the result is
  the first header in table order whose squeezed form contains the squeezed form of some
  alias, and it is absent when there is no such header.
\<close>

theorem pick_column_two_phase:
  "(\<forall>cand. find (exact_alias cols) cands = Some cand \<longrightarrow>
      (\<exists>h \<in> set cols. pick_column cols cands = Some h \<and> normalized h = normalized cand)) \<and>
   (find (exact_alias cols) cands = None \<longrightarrow>
      pick_column cols cands = find (substring_header cands) cols)"
proof (intro conjI allI impI)
  fix cand
  assume f: "find (exact_alias cols) cands = Some cand"
  let ?hs = "filter (\<lambda>h. normalized h = normalized cand) cols"
  from f have "exact_alias cols cand" by (auto simp: find_Some_iff)
  then have ne: "?hs \<noteq> []"
    by (auto simp: exact_alias_def filter_empty_conv)
  then have "last ?hs \<in> set ?hs" by (rule last_in_set)
  then have "last ?hs \<in> set cols" "normalized (last ?hs) = normalized cand" by auto
  with pick_column_exact [OF f]
  show "\<exists>h \<in> set cols. pick_column cols cands = Some h \<and> normalized h = normalized cand"
    by auto
next
  assume "find (exact_alias cols) cands = None"
  then show "pick_column cols cands = find (substring_header cands) cols"
    by (rule pick_column_substring)
qed

text \<open>
  Both phases at concrete headers: the alias \<open>balance\<close> matches exactly although the
  header \<open>Invoice Date\<close> comes first; the alias \<open>date\<close> has no exact match and the
  first header that contains it is chosen.
\<close>

theorem pick_column_two_phase_witness:
  "find (exact_alias [''Invoice Date'', ''Balance Due'', '' BALANCE'']) [''amount'', ''balance'']
     = Some ''balance'' \<and>
   pick_column [''Invoice Date'', ''Balance Due'', '' BALANCE''] [''amount'', ''balance'']
     = Some '' BALANCE'' \<and>
   find (exact_alias [''Ref'', ''Due  Date'', ''date2'']) [''date''] = None \<and>
   pick_column [''Ref'', ''Due  Date'', ''date2''] [''date''] = Some ''Due  Date''"
proof -
  let ?cols1 = "[''Invoice Date'', ''Balance Due'', '' BALANCE'']"
  let ?cands1 = "[''amount'', ''balance'']"
  let ?cols2 = "[''Ref'', ''Due  Date'', ''date2'']"
  let ?cands2 = "[''date'']"
  have h1: "find (exact_alias ?cols1) ?cands1 = Some ''balance''"
    by (simp add: exact_alias_def text_eval)
  have h2: "find (exact_alias ?cols2) ?cands2 = None"
    by (simp add: exact_alias_def text_eval)
  from pick_column_two_phase [of ?cols1 ?cands1] h1
  obtain h where h: "h \<in> set ?cols1" "pick_column ?cols1 ?cands1 = Some h"
    "normalized h = normalized ''balance''"
    by blast
  have "\<forall>x \<in> set ?cols1. normalized x = normalized ''balance'' \<longrightarrow> x = '' BALANCE''"
    by (simp add: text_eval)
  with h have c1: "pick_column ?cols1 ?cands1 = Some '' BALANCE''"
    by blast
  have "find (substring_header ?cands2) ?cols2 = Some ''Due  Date''"
    by (simp add: substring_header_def text_eval)
  with pick_column_two_phase [of ?cols2 ?cands2] h2
  have c2: "pick_column ?cols2 ?cands2 = Some ''Due  Date''"
    by simp
  from h1 c1 h2 c2 show ?thesis by blast
qed

text \<open>
  Claim C10. When several headers share the normalized form of the alias that the exact
  phase selects (the first alias in list order with an exact match), the result is the
  last of these headers in table order, not the first.
\<close>

theorem pick_column_last_duplicate:
  assumes "find (exact_alias cols) cands = Some cand"
  shows "pick_column cols cands = Some (last (filter (\<lambda>h. normalized h = normalized cand) cols))"
  using assms by (rule pick_column_exact)

text \<open>Two headers with the normalized form \<open>balance\<close>: the later one is returned.\<close>

theorem pick_column_last_duplicate_witness:
  "find (exact_alias [''Balance'', ''date'', ''BALANCE '']) [''balance''] = Some ''balance'' \<and>
   filter (\<lambda>h. normalized h = normalized ''balance'') [''Balance'', ''date'', ''BALANCE '']
     = [''Balance'', ''BALANCE ''] \<and>
   pick_column [''Balance'', ''date'', ''BALANCE ''] [''balance''] = Some ''BALANCE ''"
proof -
  let ?cols = "[''Balance'', ''date'', ''BALANCE '']"
  have h: "find (exact_alias ?cols) [''balance''] = Some ''balance''"
    by (simp add: exact_alias_def text_eval)
  have f: "filter (\<lambda>h. normalized h = normalized ''balance'') ?cols = [''Balance'', ''BALANCE '']"
    by (simp add: text_eval)
  from pick_column_last_duplicate [OF h] f
  have "pick_column ?cols [''balance''] = Some ''BALANCE ''"
    by simp
  with h f show ?thesis by blast
qed

section \<open>The pipeline: failure and success\<close>

lemma getitem_cases:
  "(\<exists>cells. getitem df c = Inr cells) \<or> getitem df c = Inl (KeyError c) \<or>
   getitem df c = Inl (NotASeries c)"
  by (auto simp: getitem_def split: list.splits)

lemma getitem_distinct:
  assumes "distinct (columns df)" and "c \<in> set (columns df)"
  shows "\<exists>cells. getitem df c = Inr cells"
  using assms unfolding columns_def
proof (induction df)
  case Nil
  then show ?case by simp
next
  case (Cons col df)
  show ?case
  proof (cases "fst col = c")
    case True
    with Cons.prems have "c \<notin> fst ` set df"
      by auto
    then have "filter (\<lambda>col. fst col = c) df = []"
      unfolding filter_empty_conv by (metis imageI)
    with True show ?thesis by (simp add: getitem_def)
  next
    case False
    with Cons show ?thesis by (auto simp: getitem_def)
  qed
qed

lemma getitem_not_KeyError:
  "c \<in> set (columns df) \<Longrightarrow> getitem df c \<noteq> Inl (KeyError k)"
  by (auto simp: getitem_def columns_def filter_empty_conv split: list.splits)

lemma getitem_mem: "getitem df c = Inr cells \<Longrightarrow> (c, cells) \<in> set df"
proof -
  assume a: "getitem df c = Inr cells"
  then obtain col where f: "filter (\<lambda>col. fst col = c) df = [col]" and s: "snd col = cells"
    by (auto simp: getitem_def split: list.splits)
  from f have "col \<in> set (filter (\<lambda>col. fst col = c) df)" by simp
  then have "col \<in> set df" "fst col = c" by auto
  with s show ?thesis by (metis prod.collapse)
qed

lemma missing_inline:
  "map fst (filter (\<lambda>kv. snd kv = None)
     [(key_customer_id, pick_column (columns df) CUST_ID_COL_CANDIDATES),
      (key_transaction_number, pick_column (columns df) TRANS_NO_COL_CANDIDATES),
      (key_date, pick_column (columns df) DATE_COL_CANDIDATES),
      (key_balance, pick_column (columns df) BALANCE_COL_CANDIDATES)]) = missing_fields df"
  by (simp add: missing_fields_def)

lemma process_dataframe_missing:
  assumes "missing_fields df \<noteq> []"
  shows "process_dataframe td tn df =
     Inl (ValueError (''Missing required columns: '' @ join '', '' (missing_fields df)))"
  unfolding process_dataframe_def Let_def missing_inline
  using assms by (simp only: not_False_eq_True if_True)

lemma missing_fields_Nil:
  "missing_fields df = [] \<longleftrightarrow>
     (\<exists>a b c d. pick_column (columns df) CUST_ID_COL_CANDIDATES = Some a \<and>
        pick_column (columns df) TRANS_NO_COL_CANDIDATES = Some b \<and>
        pick_column (columns df) DATE_COL_CANDIDATES = Some c \<and>
        pick_column (columns df) BALANCE_COL_CANDIDATES = Some d)"
  unfolding missing_fields_def by auto

lemma process_dataframe_detected:
  assumes "pick_column (columns df) CUST_ID_COL_CANDIDATES = Some a"
    and "pick_column (columns df) TRANS_NO_COL_CANDIDATES = Some b"
    and "pick_column (columns df) DATE_COL_CANDIDATES = Some c"
    and "pick_column (columns df) BALANCE_COL_CANDIDATES = Some d"
  shows "process_dataframe td tn df =
     build_output td tn df
       [(key_customer_id, Some a), (key_transaction_number, Some b),
        (key_date, Some c), (key_balance, Some d)] a b c d"
  unfolding process_dataframe_def Let_def using assms by simp

lemma build_output_Inr:
  assumes "build_output td tn df det a b c d = Inr (out, dbg)"
  obtains cu dn dt bal where
    "getitem df a = Inr cu" "getitem df b = Inr dn"
    "getitem df c = Inr dt" "getitem df d = Inr bal"
    "out = \<lparr>debtor_reference =
              loc_mask (nonzero_mask (balance_column tn bal))
                (map (\<lambda>x. extract_six_digits (str x)) cu),
            transaction_type =
              loc_mask (nonzero_mask (balance_column tn bal))
                (map transaction_type_of (balance_column tn bal)),
            document_number =
              loc_mask (nonzero_mask (balance_column tn bal)) (map (\<lambda>x. strip (str x)) dn),
            document_date =
              loc_mask (nonzero_mask (balance_column tn bal)) (format_date_series td dt),
            document_balance =
              loc_mask (nonzero_mask (balance_column tn bal))
                (map round2 (balance_column tn bal))\<rparr>"
    "dbg = \<lparr>detected_columns = det,
            rows_removed_balance_0 =
              int (length (balance_column tn bal)) -
              int (length (filter id (nonzero_mask (balance_column tn bal))))\<rparr>"
  using assms unfolding build_output_def and_then_def Let_def
  by (auto split: sum.splits)

lemma build_output_Inl:
  assumes "build_output td tn df det a b c d = Inl e"
  shows "\<exists>k \<in> {a, b, c, d}. getitem df k = Inl e"
  using assms unfolding build_output_def and_then_def Let_def
  by (auto split: sum.splits)

lemma build_output_total:
  assumes "getitem df a = Inr cu" "getitem df b = Inr dn"
    "getitem df c = Inr dt" "getitem df d = Inr bal"
  shows "\<exists>out dbg. build_output td tn df det a b c d = Inr (out, dbg)"
  using assms unfolding build_output_def and_then_def Let_def by simp

text \<open>
  Claim C2. The pipeline fails with the error for missing columns (a \<^verbatim>\<open>ValueError\<close>
  in the source) if and only if at least one of the four logical fields is not detected.
  The message then lists the keys of all undetected fields, in field order, joined by a
  comma and a space; the result is the error, so no table is produced. When all four
  fields are detected, no \<^verbatim>\<open>ValueError\<close> is raised, and on a table whose labels are
  distinct the pipeline returns a table.
\<close>

theorem missing_columns_error:
  "(missing_fields df \<noteq> [] \<longrightarrow>
      process_dataframe td tn df =
        Inl (ValueError (''Missing required columns: '' @ join '', '' (missing_fields df)))) \<and>
   (missing_fields df = [] \<longrightarrow> (\<forall>msg. process_dataframe td tn df \<noteq> Inl (ValueError msg))) \<and>
   (missing_fields df = [] \<and> distinct (columns df) \<longrightarrow>
      (\<exists>out dbg. process_dataframe td tn df = Inr (out, dbg)))"
proof (intro conjI impI allI)
  assume "missing_fields df \<noteq> []"
  then show "process_dataframe td tn df =
      Inl (ValueError (''Missing required columns: '' @ join '', '' (missing_fields df)))"
    by (rule process_dataframe_missing)
next
  fix msg
  assume "missing_fields df = []"
  then obtain a b c d where picks:
    "pick_column (columns df) CUST_ID_COL_CANDIDATES = Some a"
    "pick_column (columns df) TRANS_NO_COL_CANDIDATES = Some b"
    "pick_column (columns df) DATE_COL_CANDIDATES = Some c"
    "pick_column (columns df) BALANCE_COL_CANDIDATES = Some d"
    unfolding missing_fields_Nil by blast
  show "process_dataframe td tn df \<noteq> Inl (ValueError msg)"
  proof
    assume "process_dataframe td tn df = Inl (ValueError msg)"
    with process_dataframe_detected [OF picks, of td tn]
    have "build_output td tn df
       [(key_customer_id, Some a), (key_transaction_number, Some b),
        (key_date, Some c), (key_balance, Some d)] a b c d = Inl (ValueError msg)"
      by simp
    then obtain k where "getitem df k = Inl (ValueError msg)"
      by (blast dest: build_output_Inl)
    with getitem_cases [of df k] show False by auto
  qed
next
  assume "missing_fields df = [] \<and> distinct (columns df)"
  then have m: "missing_fields df = []" and dist: "distinct (columns df)" by auto
  from m obtain a b c d where picks:
    "pick_column (columns df) CUST_ID_COL_CANDIDATES = Some a"
    "pick_column (columns df) TRANS_NO_COL_CANDIDATES = Some b"
    "pick_column (columns df) DATE_COL_CANDIDATES = Some c"
    "pick_column (columns df) BALANCE_COL_CANDIDATES = Some d"
    unfolding missing_fields_Nil by blast
  from picks have "a \<in> set (columns df)" "b \<in> set (columns df)"
    "c \<in> set (columns df)" "d \<in> set (columns df)"
    by (auto dest: pick_column_mem)
  with dist obtain cu dn dt bal where
    "getitem df a = Inr cu" "getitem df b = Inr dn" "getitem df c = Inr dt" "getitem df d = Inr bal"
    by (meson getitem_distinct)
  from build_output_total [OF this] process_dataframe_detected [OF picks, of td tn]
  show "\<exists>out dbg. process_dataframe td tn df = Inr (out, dbg)"
    by simp
qed

section \<open>Evaluation at concrete inputs\<close>

lemma bit_length_0: "bit_length 0 = 0"
  by simp

lemma bit_length_1: "bit_length 1 = 1"
  by simp

lemma bit_length_numeral: "bit_length (numeral k) = Suc (bit_length (numeral k div 2))"
  by (subst bit_length.simps) simp

lemmas bit_length_eval = bit_length_0 bit_length_1 bit_length_numeral

declare bit_length.simps [simp del]

lemma floor_rat_numeral_div: "\<lfloor>(numeral a / numeral b :: rat)\<rfloor> = numeral a div numeral b"
  by (metis floor_divide_of_int_eq of_int_numeral)

lemma floor_rat_one_div: "\<lfloor>(1 / numeral b :: rat)\<rfloor> = 1 div numeral b"
  by (metis floor_divide_of_int_eq of_int_numeral of_int_1)

lemma ceiling_rat_numeral_div:
  "\<lceil>(numeral a / numeral b :: rat)\<rceil> = - (- numeral a div numeral b)"
  by (metis ceiling_def floor_divide_of_int_eq minus_divide_left of_int_minus of_int_numeral)

lemma ceiling_rat_one_div: "\<lceil>(1 / numeral b :: rat)\<rceil> = - (- 1 div numeral b)"
  by (metis ceiling_def floor_divide_of_int_eq minus_divide_left of_int_minus of_int_numeral
      of_int_1)

lemmas b64_eval = b64_def b64_pos_def ilog2_def bit_length_eval pow2_def round_half_even_def
  Let_def floor_rat_numeral_div floor_rat_one_div ceiling_rat_numeral_div ceiling_rat_one_div

lemmas float_eval = py_float_def parse_sign_def parse_decimal_def digits_val_def pow10_def
  is_digit_def digit_val_Char dv_def text_eval b64_eval

lemmas date_eval = format_date_series_def parse_date_value_def fmts_def strftime_def pad2_def
  pad4_def digit_char_def strptime_def directive_of_def re_year_def re_month_def re_day_def
  two_digits_def one_digit_def in_range_def is_digit_def digit_val_Char dv_def group_def
  valid_date_def days_in_month_def is_leap_def Let_def text_eval

lemmas pick_eval = pick_column_def lower_map_def text_eval CUST_ID_COL_CANDIDATES_def
  TRANS_NO_COL_CANDIDATES_def DATE_COL_CANDIDATES_def BALANCE_COL_CANDIDATES_def

lemma example_columns:
  "columns example_table = [''customer_id'', ''transaction_number'', ''date'', ''balance'']"
  by (simp add: columns_def example_table_def)

lemma example_picks:
  "pick_column (columns example_table) CUST_ID_COL_CANDIDATES = Some ''customer_id''"
  "pick_column (columns example_table) TRANS_NO_COL_CANDIDATES = Some ''transaction_number''"
  "pick_column (columns example_table) DATE_COL_CANDIDATES = Some ''date''"
  "pick_column (columns example_table) BALANCE_COL_CANDIDATES = Some ''balance''"
  unfolding example_columns by (simp_all add: pick_eval)

lemma example_getitem:
  "getitem example_table ''customer_id'' =
     Inr [Val ''CUST000123456'', Val ''CUST000000001'', Val ''AB12'', NaN]"
  "getitem example_table ''transaction_number'' =
     Inr [Val ''TXN1'', Val ''TXN2'', NaN, Val '' TXN4 '']"
  "getitem example_table ''date'' =
     Inr [Val ''07/03/2024'', Val ''2024-01-01'', Val ''2024-03-07'', NaN]"
  "getitem example_table ''balance'' = Inr [Val ''1,200.00'', Val ''0'', Val ''(50)'', NaN]"
  by (simp_all add: getitem_def example_table_def)

lemma example_balance:
  "balance_column tn [Val ''1,200.00'', Val ''0'', Val ''(50)'', NaN] =
     [Flt (Fin 1200), Flt (Fin 0), Flt (Fin (- 50)), NA]"
  by (simp add: balance_column_def to_numeric_value_def float_eval)

lemma example_dates:
  "format_date_series td [Val ''07/03/2024'', Val ''2024-01-01'', Val ''2024-03-07'', NaN] =
     [''07/03/2024'', ''01/01/2024'', ''07/03/2024'', []]"
  by (simp add: date_eval)

lemma example_debtor:
  "map (\<lambda>x. extract_six_digits (str x))
     [Val ''CUST000123456'', Val ''CUST000000001'', Val ''AB12'', NaN] =
     [''123456'', ''000001'', [], []]"
  by (simp add: extract_six_digits_def match_six_digits_def is_digit_def digit_val_Char
      at_end_def)

lemma example_doc_no:
  "map (\<lambda>x. strip (str x)) [Val ''TXN1'', Val ''TXN2'', NaN, Val '' TXN4 ''] =
     [''TXN1'', ''TXN2'', ''nan'', ''TXN4'']"
  by (simp add: text_eval)

lemma example_round:
  "map round2 [Flt (Fin 1200), Flt (Fin 0), Flt (Fin (- 50)), NA] =
     [Flt (Fin 1200), Flt (Fin 0), Flt (Fin (- 50)), NA]"
  by (simp add: b64_eval)

text \<open>
  The pipeline on the example table, whatever the lenient parsers do: every date and
  every balance of the table is read by the strict parsers.
\<close>

lemma example_result:
  "process_dataframe td tn example_table = Inr (example_output, example_debug)"
  unfolding process_dataframe_detected [OF example_picks] build_output_def and_then_def
    example_getitem sum.case Let_def example_balance example_dates example_debtor
    example_doc_no example_round
  by (simp add: nonzero_mask_def loc_mask_def transaction_type_of_def example_output_def
      example_debug_def)

lemma example_lengths: "\<forall>col \<in> set example_table. length (snd col) = 4"
  by (simp add: example_table_def)

lemma example_missing: "missing_fields example_table = []"
  unfolding missing_fields_Nil using example_picks by blast

lemma example_detected_cells:
  "detected_cells example_table CUST_ID_COL_CANDIDATES =
     [Val ''CUST000123456'', Val ''CUST000000001'', Val ''AB12'', NaN]"
  "detected_cells example_table TRANS_NO_COL_CANDIDATES =
     [Val ''TXN1'', Val ''TXN2'', NaN, Val '' TXN4 '']"
  "detected_cells example_table DATE_COL_CANDIDATES =
     [Val ''07/03/2024'', Val ''2024-01-01'', Val ''2024-03-07'', NaN]"
  "detected_cells example_table BALANCE_COL_CANDIDATES =
     [Val ''1,200.00'', Val ''0'', Val ''(50)'', NaN]"
  by (simp_all add: detected_cells_def example_picks example_getitem)

lemma example_normalized_balances:
  "map (normalized_balance tn) [Val ''1,200.00'', Val ''0'', Val ''(50)'', NaN] =
     [Flt (Fin 1200), Flt (Fin 0), Flt (Fin (- 50)), NA]"
  using example_balance [of tn] by (simp add: balance_column_def normalized_balance_def)

lemma example_surviving:
  "surviving_rows tn example_table =
     [(Val ''CUST000123456'', Val ''TXN1'', Val ''07/03/2024'', Val ''1,200.00''),
      (Val ''AB12'', NaN, Val ''2024-03-07'', Val ''(50)'')]"
  using example_normalized_balances [of tn]
  by (simp add: surviving_rows_def input_rows_def example_detected_cells row_balance_def)

lemma example_without_balance_missing:
  "missing_fields example_without_balance = [key_transaction_number, key_date, key_balance]"
  by (simp add: missing_fields_def example_without_balance_def columns_def pick_eval)

text \<open>
  The error names the three undetected fields of a table with the headers
  \<open>Customer_ID\<close> and \<open>when\<close>; the example table has all four fields and is transformed.
\<close>

theorem missing_columns_error_witness:
  "missing_fields example_without_balance \<noteq> [] \<and>
   process_dataframe no_datetime no_numeric example_without_balance =
     Inl (ValueError (''Missing required columns: '' @
       key_transaction_number @ '', '' @ key_date @ '', '' @ key_balance)) \<and>
   missing_fields example_table = [] \<and> distinct (columns example_table) \<and>
   (\<forall>msg. process_dataframe no_datetime no_numeric example_table \<noteq> Inl (ValueError msg)) \<and>
   (\<exists>out dbg. process_dataframe no_datetime no_numeric example_table = Inr (out, dbg))"
proof -
  have h1: "missing_fields example_without_balance \<noteq> []"
    by (simp add: example_without_balance_missing)
  have h2: "missing_fields example_table = []"
    by (rule example_missing)
  have h3: "distinct (columns example_table)"
    by (simp add: example_columns)
  from missing_columns_error [of example_without_balance no_datetime no_numeric] h1
  have c1: "process_dataframe no_datetime no_numeric example_without_balance =
     Inl (ValueError (''Missing required columns: '' @
       key_transaction_number @ '', '' @ key_date @ '', '' @ key_balance))"
    by (simp add: example_without_balance_missing)
  from missing_columns_error [of example_table no_datetime no_numeric] h2 h3
  have c2: "\<forall>msg. process_dataframe no_datetime no_numeric example_table \<noteq> Inl (ValueError msg)"
    and c3: "\<exists>out dbg. process_dataframe no_datetime no_numeric example_table = Inr (out, dbg)"
    by blast+
  from h1 c1 h2 h3 c2 c3 show ?thesis by blast
qed

section \<open>The pipeline: the output columns\<close>

lemma loc_mask_map: "loc_mask (map p xs) (map f xs) = map f (filter p xs)"
  by (induction xs) (simp_all add: loc_mask_def)

lemma length_filter_id_map: "length (filter id (map p xs)) = length (filter p xs)"
  by (induction xs) simp_all

lemma transaction_type_of_positive:
  "transaction_type_of v = (if positive v then ''INV'' else ''CRD'')"
  by (cases v rule: positive.cases) (simp_all add: transaction_type_of_def)

lemma ne_zero_fillna0: "ne_zero (fillna0 (astype_Float64 v)) = nonzero (astype_Float64 v)"
  by (cases v rule: positive.cases) simp_all

lemma nonzero_mask_balance_column:
  "nonzero_mask (balance_column tn bal) = map (\<lambda>x. nonzero (normalized_balance tn x)) bal"
  by (simp add: nonzero_mask_def balance_column_def normalized_balance_def ne_zero_fillna0)

lemma process_dataframe_Inr:
  assumes "process_dataframe td tn df = Inr (out, dbg)"
  obtains cu dn dt bal where
    "detected_cells df CUST_ID_COL_CANDIDATES = cu"
    "detected_cells df TRANS_NO_COL_CANDIDATES = dn"
    "detected_cells df DATE_COL_CANDIDATES = dt"
    "detected_cells df BALANCE_COL_CANDIDATES = bal"
    "(\<exists>c. (c, cu) \<in> set df)" "(\<exists>c. (c, dn) \<in> set df)"
    "(\<exists>c. (c, dt) \<in> set df)" "(\<exists>c. (c, bal) \<in> set df)"
    "debtor_reference out =
       loc_mask (nonzero_mask (balance_column tn bal)) (map (\<lambda>x. extract_six_digits (str x)) cu)"
    "transaction_type out =
       loc_mask (nonzero_mask (balance_column tn bal))
         (map transaction_type_of (balance_column tn bal))"
    "document_number out =
       loc_mask (nonzero_mask (balance_column tn bal)) (map (\<lambda>x. strip (str x)) dn)"
    "document_date out =
       loc_mask (nonzero_mask (balance_column tn bal)) (format_date_series td dt)"
    "document_balance out =
       loc_mask (nonzero_mask (balance_column tn bal)) (map round2 (balance_column tn bal))"
    "rows_removed_balance_0 dbg =
       int (length (balance_column tn bal)) -
       int (length (filter id (nonzero_mask (balance_column tn bal))))"
proof -
  have "missing_fields df = []"
  proof (rule ccontr)
    assume "missing_fields df \<noteq> []"
    from process_dataframe_missing [OF this, of td tn] assms show False by simp
  qed
  then obtain a b c d where picks:
    "pick_column (columns df) CUST_ID_COL_CANDIDATES = Some a"
    "pick_column (columns df) TRANS_NO_COL_CANDIDATES = Some b"
    "pick_column (columns df) DATE_COL_CANDIDATES = Some c"
    "pick_column (columns df) BALANCE_COL_CANDIDATES = Some d"
    unfolding missing_fields_Nil by blast
  from process_dataframe_detected [OF picks, of td tn] assms
  have "build_output td tn df
       [(key_customer_id, Some a), (key_transaction_number, Some b),
        (key_date, Some c), (key_balance, Some d)] a b c d = Inr (out, dbg)"
    by simp
  then obtain cu dn dt bal where g:
    "getitem df a = Inr cu" "getitem df b = Inr dn"
    "getitem df c = Inr dt" "getitem df d = Inr bal"
    and o: "out = \<lparr>debtor_reference =
              loc_mask (nonzero_mask (balance_column tn bal))
                (map (\<lambda>x. extract_six_digits (str x)) cu),
            transaction_type =
              loc_mask (nonzero_mask (balance_column tn bal))
                (map transaction_type_of (balance_column tn bal)),
            document_number =
              loc_mask (nonzero_mask (balance_column tn bal)) (map (\<lambda>x. strip (str x)) dn),
            document_date =
              loc_mask (nonzero_mask (balance_column tn bal)) (format_date_series td dt),
            document_balance =
              loc_mask (nonzero_mask (balance_column tn bal))
                (map round2 (balance_column tn bal))\<rparr>"
    and d: "dbg = \<lparr>detected_columns =
              [(key_customer_id, Some a), (key_transaction_number, Some b),
               (key_date, Some c), (key_balance, Some d)],
            rows_removed_balance_0 =
              int (length (balance_column tn bal)) -
              int (length (filter id (nonzero_mask (balance_column tn bal))))\<rparr>"
    by (rule build_output_Inr)
  from g have mem: "(\<exists>c. (c, cu) \<in> set df)" "(\<exists>c. (c, dn) \<in> set df)"
    "(\<exists>c. (c, dt) \<in> set df)" "(\<exists>c. (c, bal) \<in> set df)"
    by (blast dest: getitem_mem)+
  show thesis
    by (rule that [OF _ _ _ _ mem]) (simp_all add: detected_cells_def picks g o d)
qed

text \<open>
  On a table whose columns all have \<open>n\<close> cells, every output column is the image of the
  surviving input rows.
\<close>

lemma process_dataframe_columns:
  assumes ok: "process_dataframe td tn df = Inr (out, dbg)"
    and lens: "\<forall>col \<in> set df. length (snd col) = n"
  shows "debtor_reference out =
           map (\<lambda>r. extract_six_digits (str (fst r))) (surviving_rows tn df)"
    and "transaction_type out =
           map (\<lambda>r. transaction_type_of (row_balance tn r)) (surviving_rows tn df)"
    and "document_number out =
           map (\<lambda>r. strip (str (fst (snd r)))) (surviving_rows tn df)"
    and "document_date out =
           map (\<lambda>r. case parse_date_value td (fst (snd (snd r))) of
                      Some d \<Rightarrow> strftime d ''%d/%m/%Y'' | None \<Rightarrow> [])
             (surviving_rows tn df)"
    and "document_balance out = map (\<lambda>r. round2 (row_balance tn r)) (surviving_rows tn df)"
    and "length (input_rows df) = n"
    and "rows_removed_balance_0 dbg = int n - int (length (surviving_rows tn df))"
proof -
  from ok obtain cu dn dt bal where
    dc: "detected_cells df CUST_ID_COL_CANDIDATES = cu"
    "detected_cells df TRANS_NO_COL_CANDIDATES = dn"
    "detected_cells df DATE_COL_CANDIDATES = dt"
    "detected_cells df BALANCE_COL_CANDIDATES = bal"
    and mem: "(\<exists>c. (c, cu) \<in> set df)" "(\<exists>c. (c, dn) \<in> set df)"
    "(\<exists>c. (c, dt) \<in> set df)" "(\<exists>c. (c, bal) \<in> set df)"
    and o: "debtor_reference out =
       loc_mask (nonzero_mask (balance_column tn bal)) (map (\<lambda>x. extract_six_digits (str x)) cu)"
    "transaction_type out =
       loc_mask (nonzero_mask (balance_column tn bal))
         (map transaction_type_of (balance_column tn bal))"
    "document_number out =
       loc_mask (nonzero_mask (balance_column tn bal)) (map (\<lambda>x. strip (str x)) dn)"
    "document_date out =
       loc_mask (nonzero_mask (balance_column tn bal)) (format_date_series td dt)"
    "document_balance out =
       loc_mask (nonzero_mask (balance_column tn bal)) (map round2 (balance_column tn bal))"
    and r: "rows_removed_balance_0 dbg =
       int (length (balance_column tn bal)) -
       int (length (filter id (nonzero_mask (balance_column tn bal))))"
    by (rule process_dataframe_Inr)
  from mem lens have len: "length cu = n" "length dn = n" "length dt = n" "length bal = n"
    by force+
  let ?rows = "zip cu (zip dn (zip dt bal))"
  let ?keep = "\<lambda>r. nonzero (row_balance tn r)"
  let ?m = "nonzero_mask (balance_column tn bal)"
  have rows: "input_rows df = ?rows"
    by (simp add: input_rows_def dc)
  show "length (input_rows df) = n"
    by (simp add: rows len)
  have cu: "cu = map fst ?rows"
    and dn: "dn = map (\<lambda>r. fst (snd r)) ?rows"
    and dt: "dt = map (\<lambda>r. fst (snd (snd r))) ?rows"
    and bal: "bal = map (\<lambda>r. snd (snd (snd r))) ?rows"
    using len by (auto simp: list_eq_iff_nth_eq)
  have m: "?m = map ?keep ?rows"
    unfolding nonzero_mask_balance_column row_balance_def
    by (subst bal) (simp only: map_map comp_def)
  have sr: "surviving_rows tn df = filter ?keep ?rows"
    by (simp add: surviving_rows_def rows)
  have bc: "balance_column tn bal = map (\<lambda>r. row_balance tn r) ?rows"
    unfolding balance_column_def row_balance_def normalized_balance_def
    by (subst bal) (simp only: map_map comp_def)
  have "debtor_reference out = loc_mask (map ?keep ?rows)
      (map (\<lambda>r. extract_six_digits (str (fst r))) ?rows)"
    unfolding o m by (subst cu) (simp only: map_map comp_def)
  then show "debtor_reference out =
      map (\<lambda>r. extract_six_digits (str (fst r))) (surviving_rows tn df)"
    by (simp only: loc_mask_map sr)
  have "transaction_type out = loc_mask (map ?keep ?rows)
      (map (\<lambda>r. transaction_type_of (row_balance tn r)) ?rows)"
    unfolding o m unfolding bc by (simp only: map_map comp_def)
  then show "transaction_type out =
      map (\<lambda>r. transaction_type_of (row_balance tn r)) (surviving_rows tn df)"
    by (simp only: loc_mask_map sr)
  have "document_number out = loc_mask (map ?keep ?rows)
      (map (\<lambda>r. strip (str (fst (snd r)))) ?rows)"
    unfolding o m by (subst dn) (simp only: map_map comp_def)
  then show "document_number out =
      map (\<lambda>r. strip (str (fst (snd r)))) (surviving_rows tn df)"
    by (simp only: loc_mask_map sr)
  have "document_date out = loc_mask (map ?keep ?rows)
      (map (\<lambda>r. case parse_date_value td (fst (snd (snd r))) of
                  Some d \<Rightarrow> strftime d ''%d/%m/%Y'' | None \<Rightarrow> []) ?rows)"
    unfolding o m format_date_series_def Let_def
    by (subst dt) (simp only: map_map comp_def)
  then show "document_date out =
      map (\<lambda>r. case parse_date_value td (fst (snd (snd r))) of
                 Some d \<Rightarrow> strftime d ''%d/%m/%Y'' | None \<Rightarrow> [])
        (surviving_rows tn df)"
    by (simp only: loc_mask_map sr)
  have "document_balance out = loc_mask (map ?keep ?rows)
      (map (\<lambda>r. round2 (row_balance tn r)) ?rows)"
    unfolding o m unfolding bc by (simp only: map_map comp_def)
  then show "document_balance out = map (\<lambda>r. round2 (row_balance tn r)) (surviving_rows tn df)"
    by (simp only: loc_mask_map sr)
  have "length (filter id ?m) = length (filter ?keep ?rows)"
    unfolding m by (rule length_filter_id_map)
  with r show "rows_removed_balance_0 dbg = int n - int (length (surviving_rows tn df))"
    by (simp add: sr balance_column_def len)
qed

lemma zip_map_same: "zip (map f xs) (map g xs) = map (\<lambda>x. (f x, g x)) xs"
  by (induction xs) simp_all

lemma process_dataframe_rows:
  assumes ok: "process_dataframe td tn df = Inr (out, dbg)"
    and lens: "\<forall>col \<in> set df. length (snd col) = n"
  shows "output_rows out = map (transform_row td tn) (surviving_rows tn df)"
proof -
  have t: "transform_row td tn =
      (\<lambda>r. (extract_six_digits (str (fst r)),
            transaction_type_of (row_balance tn r),
            strip (str (fst (snd r))),
            (case parse_date_value td (fst (snd (snd r))) of
               Some d \<Rightarrow> strftime d ''%d/%m/%Y'' | None \<Rightarrow> []),
            round2 (row_balance tn r)))"
    by (rule ext) (simp add: transform_row_def row_balance_def split_def)
  show ?thesis
    unfolding output_rows_def process_dataframe_columns [OF ok lens] zip_map_same t ..
qed

section \<open>The claims on the output rows\<close>

text \<open>
  Claim C5. On every table that is transformed, the Transaction Type of every output row
  is \<open>INV\<close> if and only if the normalized balance of its input row is present and
  strictly greater than zero, and \<open>CRD\<close> if and only if it is not: no value, zero or
  negative.
\<close>

theorem transaction_type_inv_iff_positive:
  assumes "process_dataframe td tn df = Inr (out, dbg)"
    and "\<forall>col \<in> set df. length (snd col) = n"
  shows "length (transaction_type out) = length (surviving_rows tn df) \<and>
    (\<forall>j < length (surviving_rows tn df).
       (transaction_type out ! j = ''INV'') = positive (row_balance tn (surviving_rows tn df ! j)) \<and>
       (transaction_type out ! j = ''CRD'') =
         (\<not> positive (row_balance tn (surviving_rows tn df ! j))))"
  unfolding process_dataframe_columns(2) [OF assms]
  by (simp add: transaction_type_of_positive)

text \<open>
  On the example table the row with the balance \<open>1,200.00\<close> is an \<open>INV\<close> and the row
  with the balance \<open>(50)\<close>, read as \<open>-50\<close>, is a \<open>CRD\<close>.
\<close>

theorem transaction_type_inv_iff_positive_witness:
  "process_dataframe no_datetime no_numeric example_table = Inr (example_output, example_debug) \<and>
   list_all (\<lambda>col. length (snd col) = 4) example_table \<and>
   length (surviving_rows no_numeric example_table) = 2 \<and>
   positive (row_balance no_numeric (surviving_rows no_numeric example_table ! 0)) \<and>
   transaction_type example_output ! 0 = ''INV'' \<and>
   \<not> positive (row_balance no_numeric (surviving_rows no_numeric example_table ! 1)) \<and>
   transaction_type example_output ! 1 = ''CRD''"
proof -
  have ok: "process_dataframe no_datetime no_numeric example_table =
      Inr (example_output, example_debug)"
    by (rule example_result)
  have l: "list_all (\<lambda>col. length (snd col) = 4) example_table"
    by (simp add: example_table_def)
  have n: "length (surviving_rows no_numeric example_table) = 2"
    by (simp add: example_surviving)
  have p0: "positive (row_balance no_numeric (surviving_rows no_numeric example_table ! 0))"
    and p1: "\<not> positive (row_balance no_numeric (surviving_rows no_numeric example_table ! 1))"
    using example_normalized_balances [of no_numeric]
    by (simp_all add: example_surviving row_balance_def)
  from transaction_type_inv_iff_positive [OF ok example_lengths] n p0 p1
  have "transaction_type example_output ! 0 = ''INV''"
    and "transaction_type example_output ! 1 = ''CRD''"
    by simp_all
  with ok l n p0 p1 show ?thesis by blast
qed

text \<open>
  Claim C7. On every table that is transformed, the output rows are the images of the
  input rows whose normalized balance, with no value read as zero, is not exactly zero, in
  input order and one output row for each surviving input row; the removed-row count of
  the diagnostics is the number of the other input rows, so the output row count plus the
  removed count is the input row count.
\<close>

theorem row_filtering:
  assumes "process_dataframe td tn df = Inr (out, dbg)"
    and "\<forall>col \<in> set df. length (snd col) = n"
  shows "output_rows out = map (transform_row td tn) (surviving_rows tn df) \<and>
    surviving_rows tn df = filter (\<lambda>r. nonzero (row_balance tn r)) (input_rows df) \<and>
    rows_removed_balance_0 dbg =
      int (length (filter (\<lambda>r. \<not> nonzero (row_balance tn r)) (input_rows df))) \<and>
    int (length (output_rows out)) + rows_removed_balance_0 dbg = int (length (input_rows df)) \<and>
    length (input_rows df) = n"
proof -
  let ?keep = "\<lambda>r. nonzero (row_balance tn r)"
  have rows: "output_rows out = map (transform_row td tn) (surviving_rows tn df)"
    using assms by (rule process_dataframe_rows)
  have sr: "surviving_rows tn df = filter ?keep (input_rows df)"
    by (simp add: surviving_rows_def)
  have n: "length (input_rows df) = n"
    using assms by (rule process_dataframe_columns(6))
  have r: "rows_removed_balance_0 dbg = int n - int (length (surviving_rows tn df))"
    using assms by (rule process_dataframe_columns(7))
  have "length (filter ?keep (input_rows df)) +
      length (filter (\<lambda>r. \<not> ?keep r) (input_rows df)) = n"
    unfolding sum_length_filter_compl by (rule n)
  with r sr have removed: "rows_removed_balance_0 dbg =
      int (length (filter (\<lambda>r. \<not> ?keep r) (input_rows df)))"
    by simp
  from rows r n have "int (length (output_rows out)) + rows_removed_balance_0 dbg =
      int (length (input_rows df))"
    by simp
  with rows sr removed n show ?thesis by blast
qed

text \<open>
  The example table has four rows; the rows with the balances \<open>0\<close> and no value are
  removed, the other two are kept in their order.
\<close>

theorem row_filtering_witness:
  "process_dataframe no_datetime no_numeric example_table = Inr (example_output, example_debug) \<and>
   list_all (\<lambda>col. length (snd col) = 4) example_table \<and>
   length (input_rows example_table) = 4 \<and>
   surviving_rows no_numeric example_table =
     [(Val ''CUST000123456'', Val ''TXN1'', Val ''07/03/2024'', Val ''1,200.00''),
      (Val ''AB12'', NaN, Val ''2024-03-07'', Val ''(50)'')] \<and>
   output_rows example_output =
     map (transform_row no_datetime no_numeric) (surviving_rows no_numeric example_table) \<and>
   length (output_rows example_output) = 2 \<and>
   rows_removed_balance_0 example_debug = 2"
proof -
  have ok: "process_dataframe no_datetime no_numeric example_table =
      Inr (example_output, example_debug)"
    by (rule example_result)
  have l: "list_all (\<lambda>col. length (snd col) = 4) example_table"
    by (simp add: example_table_def)
  note c = row_filtering [OF ok example_lengths]
  from c have n: "length (input_rows example_table) = 4"
    by blast
  from c have rows: "output_rows example_output =
     map (transform_row no_datetime no_numeric) (surviving_rows no_numeric example_table)"
    by blast
  then have len: "length (output_rows example_output) = 2"
    by (simp add: example_surviving)
  from c n len have "rows_removed_balance_0 example_debug = 2"
    by simp
  with ok l n rows len example_surviving [of no_numeric] show ?thesis by blast
qed

text \<open>
  Claim C8. On every table that is transformed, the Document Number of every output row
  is the trimmed text form of the transaction-number cell of its input row, and when that
  cell is missing it is the text \<open>nan\<close>, the text form of the missing marker, which is not
  the empty text.
\<close>

theorem document_number_of_missing:
  assumes "process_dataframe td tn df = Inr (out, dbg)"
    and "\<forall>col \<in> set df. length (snd col) = n"
  shows "length (document_number out) = length (surviving_rows tn df) \<and>
    (\<forall>j < length (surviving_rows tn df).
       document_number out ! j = strip (str (fst (snd (surviving_rows tn df ! j)))) \<and>
       (isna (fst (snd (surviving_rows tn df ! j))) \<longrightarrow>
          document_number out ! j = ''nan'' \<and> document_number out ! j \<noteq> []))"
proof -
  have nan: "strip (str c) = ''nan''" if "isna c" for c
    using that by (cases c) (simp_all add: text_eval)
  show ?thesis
    unfolding process_dataframe_columns(3) [OF assms]
    by (simp add: nan)
qed

text \<open>
  The second surviving row of the example table has no transaction number: its Document
  Number is \<open>nan\<close>.
\<close>

theorem document_number_of_missing_witness:
  "process_dataframe no_datetime no_numeric example_table = Inr (example_output, example_debug) \<and>
   list_all (\<lambda>col. length (snd col) = 4) example_table \<and>
   length (surviving_rows no_numeric example_table) = 2 \<and>
   isna (fst (snd (surviving_rows no_numeric example_table ! 1))) \<and>
   document_number example_output ! 1 = ''nan''"
proof -
  have ok: "process_dataframe no_datetime no_numeric example_table =
      Inr (example_output, example_debug)"
    by (rule example_result)
  have l: "list_all (\<lambda>col. length (snd col) = 4) example_table"
    by (simp add: example_table_def)
  have n: "length (surviving_rows no_numeric example_table) = 2"
    by (simp add: example_surviving)
  have m: "isna (fst (snd (surviving_rows no_numeric example_table ! 1)))"
    by (simp add: example_surviving)
  have j: "1 < length (surviving_rows no_numeric example_table)"
    by (simp add: n)
  from document_number_of_missing [OF ok example_lengths] j m
  have "document_number example_output ! 1 = ''nan''"
    by blast
  with ok l n m show ?thesis by blast
qed

section \<open>The Debtor Reference\<close>

lemma is_digit_newline: "\<not> is_digit (CHR 0x0A)"
  by (simp add: is_digit_def digit_val_Char)

lemma at_end_length: "at_end r \<Longrightarrow> length r \<le> 1"
  by (auto simp: at_end_def)

lemma search_six_digits_Some:
  "search_six_digits s = Some g \<Longrightarrow>
     \<exists>p r. s = p @ g @ r \<and> length g = 6 \<and> list_all is_digit g \<and> at_end r"
proof (induction s)
  case Nil
  then show ?case by simp
next
  case (Cons c cs)
  show ?case
  proof (cases "match_six_digits (c # cs)")
    case True
    with Cons.prems have g: "g = take 6 (c # cs)" by simp
    have "c # cs = [] @ g @ drop 6 (c # cs)"
      unfolding g by (simp only: append_Nil append_take_drop_id)
    moreover from True have "length g = 6" "list_all is_digit g" "at_end (drop 6 (c # cs))"
      unfolding g match_six_digits_def by (simp_all add: min_def)
    ultimately show ?thesis by blast
  next
    case False
    with Cons.prems have "search_six_digits cs = Some g" by simp
    from Cons.IH [OF this] obtain p r where
      "cs = p @ g @ r" "length g = 6" "list_all is_digit g" "at_end r"
      by blast
    then have "c # cs = (c # p) @ g @ r \<and> length g = 6 \<and> list_all is_digit g \<and> at_end r"
      by simp
    then show ?thesis by blast
  qed
qed

lemma search_six_digits_found:
  assumes len: "length g = 6" and digits: "list_all is_digit g" and r: "at_end r"
  shows "search_six_digits (p @ g @ r) = Some g"
proof (induction p)
  case Nil
  from len obtain c cs where g: "g = c # cs" by (cases g) simp_all
  have "match_six_digits (g @ r)"
    using len digits r by (simp add: match_six_digits_def)
  then show ?case
    using len by (simp add: g)
next
  case (Cons a p)
  have "\<not> match_six_digits (a # p @ g @ r)"
  proof
    assume "match_six_digits (a # p @ g @ r)"
    then have e: "at_end (drop 5 (p @ g @ r))"
      by (simp add: match_six_digits_def)
    define xs where "xs = p @ g @ r"
    have lx: "length xs = length p + 6 + length r"
      by (simp add: xs_def len)
    from e have "at_end (drop 5 xs)"
      by (simp only: xs_def)
    then have "length (drop 5 xs) \<le> 1"
      by (rule at_end_length)
    with lx have "length p + length r = 0"
      by simp
    then have "p = []" "r = []" by simp_all
    with e len have "drop 5 g = [CHR 0x0A]"
      by (auto simp: at_end_def)
    then have "CHR 0x0A \<in> set g"
      by (metis in_set_dropD list.set_intros(1))
    with digits show False
      by (auto simp: list_all_iff is_digit_newline)
  qed
  with Cons.IH show ?case by simp
qed

lemma without_final_newline_append:
  "\<exists>r. s = without_final_newline s @ r \<and> at_end r"
proof (cases "s \<noteq> [] \<and> last s = CHR 0x0A")
  case True
  then have "s = without_final_newline s @ [CHR 0x0A]"
    by (simp add: without_final_newline_def) (metis append_butlast_last_id)
  then show ?thesis
    unfolding at_end_def by blast
next
  case False
  then have "s = without_final_newline s @ []"
    by (auto simp: without_final_newline_def)
  then show ?thesis
    unfolding at_end_def by blast
qed

lemma extract_six_digits_last_six: "extract_six_digits s = last_six_digits s"
proof (cases "ends_with_six_digits (without_final_newline s)")
  case True
  let ?t = "without_final_newline s"
  let ?g = "drop (length ?t - 6) ?t"
  from without_final_newline_append obtain r where s: "s = ?t @ r" and r: "at_end r"
    by blast
  from True have len: "length ?g = 6" and digits: "list_all is_digit ?g"
    by (simp_all add: ends_with_six_digits_def)
  have "s = take (length ?t - 6) ?t @ ?g @ r"
    by (subst s) simp
  then have "search_six_digits s = search_six_digits (take (length ?t - 6) ?t @ ?g @ r)"
    by simp
  also have "\<dots> = Some ?g"
    using len digits r by (rule search_six_digits_found)
  finally show ?thesis
    using True by (simp add: extract_six_digits_def last_six_digits_def Let_def)
next
  case False
  have "search_six_digits s = None"
  proof (rule ccontr)
    assume "search_six_digits s \<noteq> None"
    then obtain g where "search_six_digits s = Some g" by blast
    from search_six_digits_Some [OF this] obtain p r where
      s: "s = p @ g @ r" and len: "length g = 6" and digits: "list_all is_digit g"
      and r: "at_end r"
      by blast
    from len have ne: "g \<noteq> []" by auto
    from ne digits have lg: "last g \<noteq> CHR 0x0A"
      by (metis is_digit_newline last_in_set list_all_iff)
    from r have "without_final_newline s = p @ g"
    proof (unfold at_end_def, elim disjE)
      assume "r = []"
      with s ne lg show ?thesis
        by (simp add: without_final_newline_def)
    next
      assume "r = [CHR 0x0A]"
      with s show ?thesis
        by (simp add: without_final_newline_def butlast_append)
    qed
    with len digits have "ends_with_six_digits (without_final_newline s)"
      by (simp add: ends_with_six_digits_def)
    with False show False by contradiction
  qed
  with False show ?thesis
    by (simp add: extract_six_digits_def last_six_digits_def Let_def)
qed

lemma ends_with_six_digits_no_newline:
  assumes "ends_with_six_digits s"
  shows "without_final_newline s = s"
proof -
  from assms have ne: "drop (length s - 6) s \<noteq> []"
    by (auto simp: ends_with_six_digits_def)
  then have "last (drop (length s - 6) s) = last s"
    by simp
  with last_in_set [OF ne] have "last s \<in> set (drop (length s - 6) s)"
    by simp
  with assms have "is_digit (last s)"
    by (auto simp: ends_with_six_digits_def list_all_iff)
  then have "last s \<noteq> CHR 0x0A"
    using is_digit_newline by metis
  then show ?thesis
    by (simp add: without_final_newline_def)
qed

text \<open>The pipeline on a table with the four alias names as labels, in the usual order.\<close>

lemma process_dataframe_standard:
  assumes df: "df = [(''customer_id'', cu), (''transaction_number'', dn), (''date'', dt),
      (''balance'', bal)]"
  shows "process_dataframe td tn df =
    Inr (\<lparr>debtor_reference =
            loc_mask (nonzero_mask (balance_column tn bal))
              (map (\<lambda>x. extract_six_digits (str x)) cu),
          transaction_type =
            loc_mask (nonzero_mask (balance_column tn bal))
              (map transaction_type_of (balance_column tn bal)),
          document_number =
            loc_mask (nonzero_mask (balance_column tn bal)) (map (\<lambda>x. strip (str x)) dn),
          document_date =
            loc_mask (nonzero_mask (balance_column tn bal)) (format_date_series td dt),
          document_balance =
            loc_mask (nonzero_mask (balance_column tn bal))
              (map round2 (balance_column tn bal))\<rparr>,
         \<lparr>detected_columns =
            [(key_customer_id, Some ''customer_id''),
             (key_transaction_number, Some ''transaction_number''),
             (key_date, Some ''date''),
             (key_balance, Some ''balance'')],
          rows_removed_balance_0 =
            int (length (balance_column tn bal)) -
            int (length (filter id (nonzero_mask (balance_column tn bal))))\<rparr>)"
proof -
  have c: "columns df = [''customer_id'', ''transaction_number'', ''date'', ''balance'']"
    by (simp add: columns_def df)
  note p = example_picks [unfolded example_columns, folded c]
  have g: "getitem df ''customer_id'' = Inr cu" "getitem df ''transaction_number'' = Inr dn"
    "getitem df ''date'' = Inr dt" "getitem df ''balance'' = Inr bal"
    by (simp_all add: getitem_def df)
  show ?thesis
    unfolding process_dataframe_detected [OF p] build_output_def and_then_def g sum.case Let_def ..
qed

lemma example_date_0703:
  "format_date_series td [Val ''07/03/2024''] = [''07/03/2024'']"
  by (simp add: date_eval)

lemma example_newline_result:
  "process_dataframe td tn example_newline_table =
     Inr (example_newline_output, example_kept_debug)"
proof -
  have b: "balance_column tn [Val ''5''] = [Flt (Fin 5)]"
    by (simp add: balance_column_def to_numeric_value_def float_eval)
  have r: "map round2 [Flt (Fin 5)] = [Flt (Fin 5)]"
    by (simp add: b64_eval)
  have d: "map (\<lambda>x. extract_six_digits (str x)) [Val (''CUST123456'' @ [CHR 0x0A])] =
      [''123456'']"
    by (simp add: extract_six_digits_def match_six_digits_def is_digit_def digit_val_Char
        at_end_def)
  have n: "map (\<lambda>x. strip (str x)) [Val ''TXN1''] = [''TXN1'']"
    by (simp add: text_eval)
  show ?thesis
    unfolding process_dataframe_standard [OF example_newline_table_def] b r d n
      example_date_0703
    by (simp add: nonzero_mask_def loc_mask_def transaction_type_of_def
        example_newline_output_def example_kept_debug_def)
qed

text \<open>
  Claim C6, amended. On every table that is transformed, the Debtor Reference of every
  output row is read from the text form of the customer-id cell of its input row: when
  the text ends in six digits it is the last six characters of the text; when the text
  without one line feed at its end ends in six digits it is the last six characters of
  that shorter text; in every other case it is the empty text.
\<close>

theorem debtor_reference_last_six_digits:
  assumes "process_dataframe td tn df = Inr (out, dbg)"
    and "\<forall>col \<in> set df. length (snd col) = n"
  shows "length (debtor_reference out) = length (surviving_rows tn df) \<and>
    (\<forall>j < length (surviving_rows tn df).
       (let s = str (fst (surviving_rows tn df ! j)); t = without_final_newline s
        in (ends_with_six_digits s \<longrightarrow> debtor_reference out ! j = drop (length s - 6) s) \<and>
           (ends_with_six_digits t \<longrightarrow> debtor_reference out ! j = drop (length t - 6) t) \<and>
           (\<not> ends_with_six_digits t \<longrightarrow> debtor_reference out ! j = [])))"
proof -
  have e: "(ends_with_six_digits s \<longrightarrow> extract_six_digits s = drop (length s - 6) s) \<and>
      (ends_with_six_digits (without_final_newline s) \<longrightarrow>
         extract_six_digits s =
           drop (length (without_final_newline s) - 6) (without_final_newline s)) \<and>
      (\<not> ends_with_six_digits (without_final_newline s) \<longrightarrow> extract_six_digits s = [])" for s
    unfolding extract_six_digits_last_six last_six_digits_def Let_def
    by (auto simp: ends_with_six_digits_no_newline)
  show ?thesis
    unfolding process_dataframe_columns(1) [OF assms] Let_def
    by (simp add: e)
qed

text \<open>
  On the example table \<open>CUST000123456\<close> gives \<open>123456\<close> and \<open>AB12\<close> gives the empty text.
\<close>

theorem debtor_reference_last_six_digits_witness:
  "process_dataframe no_datetime no_numeric example_table = Inr (example_output, example_debug) \<and>
   list_all (\<lambda>col. length (snd col) = 4) example_table \<and>
   length (surviving_rows no_numeric example_table) = 2 \<and>
   str (fst (surviving_rows no_numeric example_table ! 0)) = ''CUST000123456'' \<and>
   ends_with_six_digits ''CUST000123456'' \<and>
   debtor_reference example_output ! 0 = ''123456'' \<and>
   str (fst (surviving_rows no_numeric example_table ! 1)) = ''AB12'' \<and>
   \<not> ends_with_six_digits (without_final_newline ''AB12'') \<and>
   debtor_reference example_output ! 1 = []"
proof -
  have ok: "process_dataframe no_datetime no_numeric example_table =
      Inr (example_output, example_debug)"
    by (rule example_result)
  have l: "list_all (\<lambda>col. length (snd col) = 4) example_table"
    by (simp add: example_table_def)
  have n: "length (surviving_rows no_numeric example_table) = 2"
    by (simp add: example_surviving)
  have s0: "str (fst (surviving_rows no_numeric example_table ! 0)) = ''CUST000123456''"
    and s1: "str (fst (surviving_rows no_numeric example_table ! 1)) = ''AB12''"
    by (simp_all add: example_surviving)
  have e0: "ends_with_six_digits ''CUST000123456''"
    and e1: "\<not> ends_with_six_digits (without_final_newline ''AB12'')"
    by (simp_all add: ends_with_six_digits_def without_final_newline_def is_digit_def
        digit_val_Char)
  have j: "0 < length (surviving_rows no_numeric example_table)"
    "1 < length (surviving_rows no_numeric example_table)"
    by (simp_all add: n)
  note c = debtor_reference_last_six_digits [OF ok example_lengths]
  from c j(1) e0 have "debtor_reference example_output ! 0 = drop (length ''CUST000123456'' - 6)
      ''CUST000123456''"
    unfolding Let_def s0 [symmetric] by blast
  then have r0: "debtor_reference example_output ! 0 = ''123456''"
    by simp
  from c j(2) e1 have r1: "debtor_reference example_output ! 1 = []"
    unfolding Let_def s1 [symmetric] by blast
  from ok l n s0 e0 r0 s1 e1 r1 show ?thesis by blast
qed

text \<open>
  Claim C6 as stated fails on a customer id that ends in a line feed: the text
  \<open>CUST123456\<close> followed by a line feed does not end in six digits, yet the Debtor
  Reference is \<open>123456\<close>, not the empty text.
\<close>

theorem debtor_reference_newline_counterexample:
  "process_dataframe no_datetime no_numeric example_newline_table =
     Inr (example_newline_output, example_kept_debug) \<and>
   input_rows example_newline_table =
     [(Val (''CUST123456'' @ [CHR 0x0A]), Val ''TXN1'', Val ''07/03/2024'', Val ''5'')] \<and>
   str (Val (''CUST123456'' @ [CHR 0x0A])) = ''CUST123456'' @ [CHR 0x0A] \<and>
   \<not> ends_with_six_digits (''CUST123456'' @ [CHR 0x0A]) \<and>
   debtor_reference example_newline_output = [''123456''] \<and>
   debtor_reference example_newline_output \<noteq> [[]]"
proof -
  have c: "columns example_newline_table =
      [''customer_id'', ''transaction_number'', ''date'', ''balance'']"
    by (simp add: columns_def example_newline_table_def)
  note p = example_picks [unfolded example_columns, folded c]
  have "input_rows example_newline_table =
     [(Val (''CUST123456'' @ [CHR 0x0A]), Val ''TXN1'', Val ''07/03/2024'', Val ''5'')]"
    unfolding input_rows_def detected_cells_def p option.case
    by (simp add: getitem_def example_newline_table_def)
  moreover have "\<not> ends_with_six_digits (''CUST123456'' @ [CHR 0x0A])"
    by (simp add: ends_with_six_digits_def is_digit_def digit_val_Char)
  ultimately show ?thesis
    by (simp add: example_newline_result example_newline_output_def)
qed

section \<open>The numeric normalizer and rounding\<close>

lemma startswith_single: "startswith s [c] \<longleftrightarrow> s \<noteq> [] \<and> hd s = c"
  by (cases s) auto

lemma endswith_single: "endswith s [c] \<longleftrightarrow> s \<noteq> [] \<and> last s = c"
  by (cases s rule: rev_cases) (simp_all add: endswith_def)

lemma remove_commas_spaces:
  "remove_char CHR '' '' (remove_char CHR '','' s) =
     filter (\<lambda>c. c \<noteq> CHR '','' \<and> c \<noteq> CHR '' '') s"
  by (simp add: remove_char_def conj_commute)

lemma to_numeric_value_accounting_text:
  "to_numeric_value tn x =
     (if isna x \<or> strip (str x) = [] then NA
      else (case py_float (accounting_text (str x)) of
              Some v \<Rightarrow> Flt v
            | None \<Rightarrow> (case tn (accounting_text (str x)) of Some v \<Rightarrow> Flt v | None \<Rightarrow> NA)))"
proof -
  let ?t = "filter (\<lambda>c. c \<noteq> CHR '','' \<and> c \<noteq> CHR '' '') (str x)"
  have s: "(if startswith ?t ''('' \<and> endswith ?t '')'' then CHR ''-'' # butlast (tl ?t) else ?t) =
      accounting_text (str x)"
    unfolding accounting_text_def startswith_single endswith_single Let_def by auto
  show ?thesis
    unfolding to_numeric_value_def remove_commas_spaces Let_def s ..
qed

lemma no_value_iff: "no_value v \<longleftrightarrow> astype_Float64 v = NA"
  by (cases v rule: no_value.cases) simp_all

lemma example_accounting_text: "accounting_text ''1 234,x'' = ''1234x''"
  by (simp add: accounting_text_def)

lemma example_py_float_malformed: "py_float ''1234x'' = None"
  by (simp add: float_eval)

lemma example_numeric_values:
  "to_numeric_value tn (Val ''(1,234.50)'') = Flt (Fin (- (2469 / 2)))"
  "to_numeric_value tn (Val []) = NA"
  "to_numeric_value tn (Val ''100'') = Flt (Fin 100)"
  by (simp_all add: to_numeric_value_def float_eval)

text \<open>
  Claim C3. For every raw cell and every behaviour of the lenient coercion, the numeric
  normalizer gives no value for a cell that is missing or trims to the empty text;
  otherwise it removes the commas and spaces, replaces wrapping parentheses by a minus
  sign, and gives the float the text parses to, else the result of the lenient coercion,
  which is no value when the coercion fails too. The text \<open>(1,234.50)\<close> gives
  \<open>-1234.5\<close>, the empty text no value, \<open>100\<close> gives \<open>100\<close>, and \<open>1 234,x\<close>, which the
  coercion does not read, no value.
\<close>

theorem to_numeric_value_accounting:
  "(isna x \<or> strip (str x) = [] \<longrightarrow> to_numeric_value tn x = NA) \<and>
   (\<not> isna x \<and> strip (str x) \<noteq> [] \<longrightarrow>
      (\<forall>v. py_float (accounting_text (str x)) = Some v \<longrightarrow> to_numeric_value tn x = Flt v) \<and>
      (py_float (accounting_text (str x)) = None \<longrightarrow>
         (\<forall>v. tn (accounting_text (str x)) = Some v \<longrightarrow> to_numeric_value tn x = Flt v) \<and>
         (tn (accounting_text (str x)) = None \<or> tn (accounting_text (str x)) = Some FNaN \<longrightarrow>
            no_value (to_numeric_value tn x)))) \<and>
   to_numeric_value tn (Val ''(1,234.50)'') = Flt (Fin (- (2469 / 2))) \<and>
   to_numeric_value tn (Val []) = NA \<and>
   to_numeric_value tn (Val ''100'') = Flt (Fin 100) \<and>
   (tn ''1234x'' = None \<or> tn ''1234x'' = Some FNaN \<longrightarrow>
      no_value (to_numeric_value tn (Val ''1 234,x'')))"
proof -
  have m: "to_numeric_value tn (Val ''1 234,x'') =
      (case tn ''1234x'' of Some v \<Rightarrow> Flt v | None \<Rightarrow> NA)"
    unfolding to_numeric_value_accounting_text
    by (simp add: example_accounting_text example_py_float_malformed text_eval)
  have "tn ''1234x'' = None \<or> tn ''1234x'' = Some FNaN \<longrightarrow>
      no_value (to_numeric_value tn (Val ''1 234,x''))"
    unfolding m by auto
  moreover have "isna x \<or> strip (str x) = [] \<longrightarrow> to_numeric_value tn x = NA"
    by (simp add: to_numeric_value_accounting_text)
  moreover have "\<not> isna x \<and> strip (str x) \<noteq> [] \<longrightarrow>
      (\<forall>v. py_float (accounting_text (str x)) = Some v \<longrightarrow> to_numeric_value tn x = Flt v) \<and>
      (py_float (accounting_text (str x)) = None \<longrightarrow>
         (\<forall>v. tn (accounting_text (str x)) = Some v \<longrightarrow> to_numeric_value tn x = Flt v) \<and>
         (tn (accounting_text (str x)) = None \<or> tn (accounting_text (str x)) = Some FNaN \<longrightarrow>
            no_value (to_numeric_value tn x)))"
    unfolding to_numeric_value_accounting_text by auto
  ultimately show ?thesis
    using example_numeric_values [of tn] by blast
qed

text \<open>
  With a coercion that reads nothing: \<open>(50)\<close> is read as \<open>-50\<close> by the float parser, and
  \<open>1 234,x\<close> is read by neither and gives no value.
\<close>

theorem to_numeric_value_accounting_witness:
  "\<not> isna (Val ''(50)'') \<and> strip (str (Val ''(50)'')) \<noteq> [] \<and>
   accounting_text (str (Val ''(50)'')) = ''-50'' \<and>
   py_float ''-50'' = Some (Fin (- 50)) \<and>
   to_numeric_value no_numeric (Val ''(50)'') = Flt (Fin (- 50)) \<and>
   isna NaN \<and> to_numeric_value no_numeric NaN = NA \<and>
   no_numeric ''1234x'' = Some FNaN \<and>
   no_value (to_numeric_value no_numeric (Val ''1 234,x''))"
proof -
  have a: "\<not> isna (Val ''(50)'')" "strip (str (Val ''(50)'')) \<noteq> []"
    "accounting_text (str (Val ''(50)'')) = ''-50''"
    by (simp_all add: accounting_text_def text_eval)
  have p: "py_float ''-50'' = Some (Fin (- 50))"
    by (simp add: float_eval)
  from to_numeric_value_accounting [of "Val ''(50)''" no_numeric] a p
  have c1: "to_numeric_value no_numeric (Val ''(50)'') = Flt (Fin (- 50))"
    by simp
  from to_numeric_value_accounting [of NaN no_numeric]
  have c2: "to_numeric_value no_numeric NaN = NA"
    by simp
  have n: "no_numeric ''1234x'' = Some FNaN"
    by (simp add: no_numeric_def)
  with to_numeric_value_accounting [of NaN no_numeric]
  have c3: "no_value (to_numeric_value no_numeric (Val ''1 234,x''))"
    by blast
  from a p c1 c2 n c3 show ?thesis by simp
qed

lemma example_small_balance: "balance_column tn [Val ''0.004''] =
    [Flt (Fin (1152921504606847 / 288230376151711744))]"
  by (simp add: balance_column_def to_numeric_value_def float_eval)

lemma example_small_balance_round:
  "map round2 [Flt (Fin (1152921504606847 / 288230376151711744))] = [Flt (Fin 0)]"
  by (simp add: b64_eval)

lemma example_small_balance_result:
  "process_dataframe td tn example_small_balance_table =
     Inr (example_small_balance_output, example_kept_debug)"
proof -
  have d: "map (\<lambda>x. extract_six_digits (str x)) [Val ''CUST000123456''] = [''123456'']"
    by (simp add: extract_six_digits_def match_six_digits_def is_digit_def digit_val_Char
        at_end_def)
  have n: "map (\<lambda>x. strip (str x)) [Val ''TXN1''] = [''TXN1'']"
    by (simp add: text_eval)
  show ?thesis
    unfolding process_dataframe_standard [OF example_small_balance_table_def]
      example_small_balance example_small_balance_round d n example_date_0703
    by (simp add: nonzero_mask_def loc_mask_def transaction_type_of_def
        example_small_balance_output_def example_kept_debug_def)
qed

text \<open>
  Claim C9. The filter reads the unrounded balance: on the table with the one balance
  cell \<open>0.004\<close> the normalized balance is the float nearest to 0.004, which is not zero,
  so the row is kept and no row is removed; its Document Balance, rounded to two decimal
  places, is exactly zero.
\<close>

theorem small_balance_kept_and_rounded_to_zero:
  "process_dataframe td tn example_small_balance_table =
     Inr (example_small_balance_output, example_kept_debug) \<and>
   map (normalized_balance tn) (detected_cells example_small_balance_table BALANCE_COL_CANDIDATES) =
     [Flt (Fin (1152921504606847 / 288230376151711744))] \<and>
   nonzero (Flt (Fin (1152921504606847 / 288230376151711744))) \<and>
   length (debtor_reference example_small_balance_output) = 1 \<and>
   rows_removed_balance_0 example_kept_debug = 0 \<and>
   document_balance example_small_balance_output = [Flt (Fin 0)] \<and>
   \<not> nonzero (Flt (Fin 0))"
proof -
  have c: "columns example_small_balance_table =
      [''customer_id'', ''transaction_number'', ''date'', ''balance'']"
    by (simp add: columns_def example_small_balance_table_def)
  note p = example_picks [unfolded example_columns, folded c]
  have "detected_cells example_small_balance_table BALANCE_COL_CANDIDATES = [Val ''0.004'']"
    unfolding detected_cells_def p option.case
    by (simp add: getitem_def example_small_balance_table_def)
  with example_small_balance [of tn]
  have "map (normalized_balance tn)
      (detected_cells example_small_balance_table BALANCE_COL_CANDIDATES) =
     [Flt (Fin (1152921504606847 / 288230376151711744))]"
    by (simp add: balance_column_def normalized_balance_def)
  then show ?thesis
    by (simp add: example_small_balance_result example_small_balance_output_def
        example_kept_debug_def)
qed

end
